theory Spec2Isabelle
  imports Main
begin

section \<open>Values exchanged with the remote client\<close>

text \<open>
  The Garmin client hands back decoded JSON: \<open>None\<close>, booleans, numbers, strings, lists
  and dicts. A dict is an association list in insertion order, as a Python dict keeps
  it; a list that represents a dict has pairwise distinct keys. The coordinator never
  computes with a number (it passes numbers on and compares identifiers), so numbers are
  the integers here.
\<close>

datatype json =
    JNull
  | JBool bool
  | JInt int
  | JStr string
  | JList "json list"
  | JObj "(string \<times> json) list"

type_synonym dict = "(string \<times> json) list"

text \<open>
  The exceptions of the module. The first three are the ones \<open>garminconnect\<close> exports
  (unrelated classes, each derived from \<open>Exception\<close>); \<open>OtherError\<close> stands for any
  other \<open>Exception\<close> a remote call raises. \<open>KeyError\<close>, \<open>TypeError\<close> and
  \<open>RuntimeError\<close> are raised by the interpreter. The last three come from Home Assistant;
  \<open>ConfigEntryNotReady\<close> keeps its cause (\<open>raise ... from err\<close>) and \<open>UpdateFailed\<close>
  its argument.
\<close>

datatype exn =
    GarminConnectAuthenticationError
  | GarminConnectTooManyRequestsError
  | GarminConnectConnectionError
  | OtherError string
  | KeyError string
  | TypeError
  | RuntimeError
  | ConfigEntryNotReady exn
  | UpdateFailed exn
  | IntegrationError string

text \<open>
  \<open>homeassistant.exceptions\<close> declares \<open>class ConfigEntryNotReady(IntegrationError)\<close>:
  an \<open>except IntegrationError\<close> clause catches both.
\<close>

fun isinstance_IntegrationError :: "exn \<Rightarrow> bool" where
  "isinstance_IntegrationError (IntegrationError m) = True"
| "isinstance_IntegrationError (ConfigEntryNotReady c) = True"
| "isinstance_IntegrationError e = False"

subsection \<open>The Python operators the module applies to these values\<close>

text \<open>\<open>x == y\<close>. A bool is an int in Python (\<open>True == 1\<close>); dicts compare without order.\<close>

fun py_eq :: "json \<Rightarrow> json \<Rightarrow> bool" where
  "py_eq JNull JNull = True"
| "py_eq (JBool a) (JBool b) = (a = b)"
| "py_eq (JBool a) (JInt b) = ((if a then 1 else 0) = b)"
| "py_eq (JInt a) (JBool b) = (a = (if b then 1 else 0))"
| "py_eq (JInt a) (JInt b) = (a = b)"
| "py_eq (JStr a) (JStr b) = (a = b)"
| "py_eq (JList xs) (JList ys) = list_all2 py_eq xs ys"
| "py_eq (JObj d) (JObj e) =
     (length d = length e \<and>
      list_all (\<lambda>(k, v). list_ex (\<lambda>(k', w). k = k' \<and> py_eq v w) e) d)"
| "py_eq _ _ = False"

text \<open>\<open>bool(x)\<close>, the test an \<open>if x\<close> or \<open>x and ...\<close> makes.\<close>

fun truthy :: "json \<Rightarrow> bool" where
  "truthy JNull = False"
| "truthy (JBool b) = b"
| "truthy (JInt i) = (i \<noteq> 0)"
| "truthy (JStr s) = (s \<noteq> [])"
| "truthy (JList xs) = (xs \<noteq> [])"
| "truthy (JObj d) = (d \<noteq> [])"

text \<open>
  \<open>x[k]\<close> with a string \<open>k\<close>: a dict gives the value or raises \<open>KeyError\<close>; a list or
  a string wants an integer index, and \<open>None\<close> and numbers are not subscriptable: all
  \<open>TypeError\<close>.
\<close>

fun subscript :: "json \<Rightarrow> string \<Rightarrow> exn + json" where
  "subscript (JObj d) k = (case map_of d k of None \<Rightarrow> Inl (KeyError k) | Some v \<Rightarrow> Inr v)"
| "subscript x k = Inl TypeError"

fun subscripts :: "json \<Rightarrow> string list \<Rightarrow> exn + json" where
  "subscripts x [] = Inr x"
| "subscripts x (k # ks) =
     (case subscript x k of Inl e \<Rightarrow> Inl e | Inr y \<Rightarrow> subscripts y ks)"

text \<open>\<open>d[k] = v\<close> on a dict: an existing key keeps its place, a new one goes last.\<close>

fun dict_set :: "string \<Rightarrow> json \<Rightarrow> dict \<Rightarrow> dict" where
  "dict_set k v [] = [(k, v)]"
| "dict_set k v ((k', v') # d) =
     (if k' = k then (k, v) # d else (k', v') # dict_set k v d)"

fun setitem :: "json \<Rightarrow> string \<Rightarrow> json \<Rightarrow> exn + json" where
  "setitem (JObj d) k v = Inr (JObj (dict_set k v d))"
| "setitem x k v = Inl TypeError"

text \<open>\<open>d.get(k, None)\<close> and \<open>d[k]\<close> on something that is a dict by its type.\<close>

definition dict_get :: "dict \<Rightarrow> string \<Rightarrow> json" where
  "dict_get d k = (case map_of d k of None \<Rightarrow> JNull | Some v \<Rightarrow> v)"

definition dict_item :: "dict \<Rightarrow> string \<Rightarrow> exn + json" where
  "dict_item d k = subscript (JObj d) k"

text \<open>
  A dict display \<open>{**a, **b, "k": v, ...}\<close> inserts its items from left to right into
  an empty dict; \<open>**x\<close> needs a mapping.
\<close>

definition dict_display :: "dict \<Rightarrow> dict" where
  "dict_display items = fold (\<lambda>(k, v). dict_set k v) items []"

fun unpack :: "json \<Rightarrow> exn + dict" where
  "unpack (JObj d) = Inr d"
| "unpack x = Inl TypeError"

text \<open>\<open>k in x\<close> for a string \<open>k\<close>.\<close>

definition is_substring :: "string \<Rightarrow> string \<Rightarrow> bool" where
  "is_substring k s = list_ex (\<lambda>i. take (length k) (drop i s) = k) [0..<Suc (length s)]"

fun contains :: "string \<Rightarrow> json \<Rightarrow> exn + bool" where
  "contains k (JObj d) = Inr (map_of d k \<noteq> None)"
| "contains k (JList xs) = Inr (list_ex (\<lambda>x. py_eq x (JStr k)) xs)"
| "contains k (JStr s) = Inr (is_substring k s)"
| "contains k x = Inl TypeError"

text \<open>\<open>iter(x)\<close>, run to the end: a dict gives its keys, a string its characters.\<close>

fun py_iter :: "json \<Rightarrow> exn + json list" where
  "py_iter (JList xs) = Inr xs"
| "py_iter (JObj d) = Inr (map (\<lambda>(k, v). JStr k) d)"
| "py_iter (JStr s) = Inr (map (\<lambda>c. JStr [c]) s)"
| "py_iter x = Inl TypeError"

text \<open>\<open>try: ... except KeyError:\<close> around an expression whose target has a default.\<close>

definition except_KeyError :: "exn + json \<Rightarrow> json \<Rightarrow> exn + json" where
  "except_KeyError r dflt =
     (case r of
        Inr v \<Rightarrow> Inr v
      | Inl (KeyError k) \<Rightarrow> Inr dflt
      | Inl e \<Rightarrow> Inl e)"

section \<open>The remote client and the calls made through the executor\<close>

text \<open>
  Every method of \<open>self._api\<close> the module calls, with its arguments. The client is a
  black box: what a call answers may depend on every call made before it, so the client
  is a function of the calls so far and the call. The coordinator's effect on the world
  is the list of calls it has made, in order.
\<close>

datatype call =
    Login
  | Get_user_summary string
  | Get_body_composition string
  | Get_activities_by_date string string
  | Get_earned_badges
  | Get_device_alarms
  | Get_activity_types
  | Get_sleep_data string
  | Get_hrv_data string
  | Get_gear json
  | Get_gear_stats json
  | Get_gear_defaults json
  | Set_gear_default json json bool
  | Add_body_composition "json list"
  | Set_blood_pressure json json json json

type_synonym remote = "call list \<Rightarrow> call \<Rightarrow> exn + json"

type_synonym 'a io = "call list \<Rightarrow> (exn + 'a) \<times> call list"

fun is_write :: "call \<Rightarrow> bool" where
  "is_write (Set_gear_default t u b) = True"
| "is_write (Add_body_composition xs) = True"
| "is_write (Set_blood_pressure s d p n) = True"
| "is_write c = False"

definition io_return :: "'a \<Rightarrow> 'a io" where
  "io_return x tr = (Inr x, tr)"

definition io_lift :: "exn + 'a \<Rightarrow> 'a io" where
  "io_lift r tr = (r, tr)"

definition io_bind :: "'a io \<Rightarrow> ('a \<Rightarrow> 'b io) \<Rightarrow> 'b io" where
  "io_bind m f tr = (case m tr of (Inl e, tr') \<Rightarrow> (Inl e, tr') | (Inr x, tr') \<Rightarrow> f x tr')"

text \<open>\<open>await self.hass.async_add_executor_job(self._api.f, args)\<close>.\<close>

definition async_add_executor_job :: "remote \<Rightarrow> call \<Rightarrow> json io" where
  "async_add_executor_job api c tr = (api tr c, tr @ [c])"

text \<open>
  \<open>const.py\<close> is not part of the sources at hand: the keys of \<open>GEAR\<close> and the two
  settings of \<open>SERVICE_SETTING\<close> the module compares with are parameters.
\<close>

record const =
  UUID :: string
  TYPE_KEY :: string
  TYPE_ID :: string
  USERPROFILE_ID :: string
  ACTIVITY_TYPE_PK :: string
  ONLY_THIS_AS_DEFAULT :: string
  DEFAULT :: string

text \<open>\<open>date.today()\<close> and the two dates computed from it, in ISO format.\<close>

record dates =
  today :: string
  week_ago :: string
  tomorrow :: string

section \<open>\<open>async_login\<close>\<close>

definition async_login :: "remote \<Rightarrow> bool io" where
  "async_login api tr =
     (case api tr Login of
        Inr v \<Rightarrow> (Inr True, tr @ [Login])
      | Inl err \<Rightarrow>
          if err = GarminConnectAuthenticationError \<or> err = GarminConnectTooManyRequestsError
          then (Inr False, tr @ [Login])
          else if err = GarminConnectConnectionError
          then (Inl (ConfigEntryNotReady err), tr @ [Login])
          else (Inr False, tr @ [Login]))"

section \<open>\<open>_async_update_data\<close>\<close>

text \<open>The locals that leave the first \<open>try\<close> block.\<close>

record primary =
  summary :: json
  body :: json
  alarms :: json
  activity_types :: json
  sleep_data :: json
  hrv_data :: json

definition fetch_primary :: "remote \<Rightarrow> dates \<Rightarrow> primary io" where
  "fetch_primary api d =
     io_bind (async_add_executor_job api (Get_user_summary (today d))) (\<lambda>summary0.
     io_bind (async_add_executor_job api (Get_body_composition (today d))) (\<lambda>body0.
     io_bind (async_add_executor_job api (Get_activities_by_date (week_ago d) (tomorrow d))) (\<lambda>activities.
     io_bind (io_lift (setitem summary0 ''lastActivities'' activities)) (\<lambda>summary1.
     io_bind (async_add_executor_job api Get_earned_badges) (\<lambda>badges.
     io_bind (io_lift (setitem summary1 ''badges'' badges)) (\<lambda>summary2.
     io_bind (async_add_executor_job api Get_device_alarms) (\<lambda>alarms0.
     io_bind (async_add_executor_job api Get_activity_types) (\<lambda>activity_types0.
     io_bind (async_add_executor_job api (Get_sleep_data (today d))) (\<lambda>sleep_data0.
     io_bind (async_add_executor_job api (Get_hrv_data (today d))) (\<lambda>hrv_data0.
     io_return \<lparr>summary = summary2, body = body0, alarms = alarms0,
       activity_types = activity_types0, sleep_data = sleep_data0,
       hrv_data = hrv_data0\<rparr>))))))))))"

text \<open>
  The list comprehension of the gear phase hands one \<open>get_gear_stats\<close> job per gear item
  to the executor, in the order of the list, and stops where \<open>gear_item[GEAR.UUID]\<close>
  raises. The jobs run on worker threads; here each is answered as it is handed over.
  \<open>asyncio.gather\<close> then gives the results in that order, or raises when a job raised.
\<close>

fun gear_stats_tasks :: "const \<Rightarrow> remote \<Rightarrow> json list \<Rightarrow> (exn + json) list io" where
  "gear_stats_tasks K api [] tr = (Inr [], tr)"
| "gear_stats_tasks K api (gear_item # rest) tr =
     (case subscript gear_item (UUID K) of
        Inl e \<Rightarrow> (Inl e, tr)
      | Inr u \<Rightarrow>
          (case gear_stats_tasks K api rest (tr @ [Get_gear_stats u]) of
             (Inl e, tr') \<Rightarrow> (Inl e, tr')
           | (Inr ts, tr') \<Rightarrow> (Inr (api tr (Get_gear_stats u) # ts), tr')))"

fun gather :: "(exn + json) list \<Rightarrow> exn + json list" where
  "gather [] = Inr []"
| "gather (Inl e # ts) = Inl e"
| "gather (Inr v # ts) = (case gather ts of Inl e \<Rightarrow> Inl e | Inr vs \<Rightarrow> Inr (v # vs))"

text \<open>Lines 172 to 178: the tasks over \<open>gear\<close>, then \<open>gather\<close>.\<close>

definition gear_stats_of :: "const \<Rightarrow> remote \<Rightarrow> json \<Rightarrow> json list io" where
  "gear_stats_of K api gear =
     io_bind (io_lift (py_iter gear)) (\<lambda>items.
     io_bind (gear_stats_tasks K api items) (\<lambda>tasks.
     io_lift (gather tasks)))"

text \<open>
  The second \<open>try\<close> block, with its bare \<open>except\<close>: the three locals start as empty
  dicts and keep what was assigned before an exception. The result is the three locals
  (\<open>gear\<close>, \<open>gear_stats\<close>, \<open>gear_defaults\<close>) and the calls made; no exception
  leaves the block.
\<close>

definition fetch_gear :: "const \<Rightarrow> remote \<Rightarrow> json \<Rightarrow> call list \<Rightarrow> (json \<times> json \<times> json) \<times> call list" where
  "fetch_gear K api summary0 tr =
     (case subscript summary0 (USERPROFILE_ID K) of
        Inl e \<Rightarrow> ((JObj [], JObj [], JObj []), tr)
      | Inr profile \<Rightarrow>
     (case async_add_executor_job api (Get_gear profile) tr of
        (Inl e, tr1) \<Rightarrow> ((JObj [], JObj [], JObj []), tr1)
      | (Inr gear, tr1) \<Rightarrow>
     (case gear_stats_of K api gear tr1 of
        (Inl e, tr2) \<Rightarrow> ((gear, JObj [], JObj []), tr2)
      | (Inr gear_stats, tr2) \<Rightarrow>
     (case async_add_executor_job api (Get_gear_defaults profile) tr2 of
        (Inl e, tr3) \<Rightarrow> ((gear, JList gear_stats, JObj []), tr3)
      | (Inr gear_defaults, tr3) \<Rightarrow> ((gear, JList gear_stats, gear_defaults), tr3)))))"

text \<open>The three extractions, each in its own \<open>try ... except KeyError\<close>.\<close>

definition sleep_score_of :: "json \<Rightarrow> exn + json" where
  "sleep_score_of sleep_data0 =
     except_KeyError
       (subscripts sleep_data0 [''dailySleepDTO'', ''sleepScores'', ''overall'', ''value''])
       JNull"

definition sleep_time_seconds_of :: "json \<Rightarrow> exn + json" where
  "sleep_time_seconds_of sleep_data0 =
     except_KeyError (subscripts sleep_data0 [''dailySleepDTO'', ''sleepTimeSeconds'']) JNull"

definition hrv_unknown :: json where
  "hrv_unknown = JObj [(''status'', JStr ''UNKNOWN'')]"

definition hrvStatus_of :: "json \<Rightarrow> exn + json" where
  "hrvStatus_of hrv_data0 =
     except_KeyError
       (if truthy hrv_data0
        then (case contains ''hrvSummary'' hrv_data0 of
                Inl e \<Rightarrow> Inl e
              | Inr True \<Rightarrow> subscript hrv_data0 ''hrvSummary''
              | Inr False \<Rightarrow> Inr hrv_unknown)
        else Inr hrv_unknown)
       hrv_unknown"

text \<open>The dict display of the \<open>return\<close> statement.\<close>

definition merged :: "primary \<Rightarrow> json \<times> json \<times> json \<Rightarrow> json \<Rightarrow> json \<Rightarrow> json \<Rightarrow> exn + json" where
  "merged p g sleep_score sleep_time_seconds hrvStatus =
     (case unpack (summary p) of
        Inl e \<Rightarrow> Inl e
      | Inr s \<Rightarrow>
     (case subscript (body p) ''totalAverage'' of
        Inl e \<Rightarrow> Inl e
      | Inr total_average \<Rightarrow>
     (case unpack total_average of
        Inl e \<Rightarrow> Inl e
      | Inr t \<Rightarrow>
          Inr (JObj (dict_display (s @ t @
            [(''nextAlarm'', alarms p),
             (''gear'', fst g),
             (''gear_stats'', fst (snd g)),
             (''activity_types'', activity_types p),
             (''gear_defaults'', snd (snd g)),
             (''sleepScore'', sleep_score),
             (''sleepTimeSeconds'', sleep_time_seconds),
             (''hrvStatus'', hrvStatus)]))))))"

definition derive_and_merge :: "primary \<Rightarrow> json \<times> json \<times> json \<Rightarrow> exn + json" where
  "derive_and_merge p g =
     (case sleep_score_of (sleep_data p) of
        Inl e \<Rightarrow> Inl e
      | Inr sleep_score \<Rightarrow>
     (case sleep_time_seconds_of (sleep_data p) of
        Inl e \<Rightarrow> Inl e
      | Inr sleep_time_seconds \<Rightarrow>
     (case hrvStatus_of (hrv_data p) of
        Inl e \<Rightarrow> Inl e
      | Inr hrvStatus \<Rightarrow> merged p g sleep_score sleep_time_seconds hrvStatus)))"

definition async_update_data :: "const \<Rightarrow> remote \<Rightarrow> dates \<Rightarrow> json io" where
  "async_update_data K api d tr =
     (case fetch_primary api d tr of
        (Inl error, tr1) \<Rightarrow>
          if error = GarminConnectAuthenticationError
             \<or> error = GarminConnectTooManyRequestsError
             \<or> error = GarminConnectConnectionError
          then (case async_login api tr1 of
                  (Inl e, tr2) \<Rightarrow> (Inl e, tr2)
                | (Inr ok, tr2) \<Rightarrow>
                    if \<not> ok then (Inl (UpdateFailed error), tr2) else (Inr (JObj []), tr2))
          else (Inl error, tr1)
      | (Inr p, tr1) \<Rightarrow>
          (case fetch_gear K api (summary p) tr1 of
             (g, tr2) \<Rightarrow> (derive_and_merge p g, tr2)))"

section \<open>The write actions\<close>

definition login_failed :: string where
  "login_failed = ''Failed to login to Garmin Connect, unable to update''"

text \<open>
  \<open>next(filter(lambda a: a[GEAR.TYPE_KEY] == service_data.data["activity_type"], ...))\<close>:
  the first item the test accepts. When the items run out, \<open>next\<close> raises
  \<open>StopIteration\<close>, which a coroutine turns into \<open>RuntimeError\<close>.
\<close>

fun next_filter :: "const \<Rightarrow> dict \<Rightarrow> json list \<Rightarrow> exn + json" where
  "next_filter K service_data [] = Inl RuntimeError"
| "next_filter K service_data (a # rest) =
     (case subscript a (TYPE_KEY K) of
        Inl e \<Rightarrow> Inl e
      | Inr key \<Rightarrow>
     (case dict_item service_data ''activity_type'' of
        Inl e \<Rightarrow> Inl e
      | Inr label \<Rightarrow> if py_eq key label then Inr a else next_filter K service_data rest))"

definition resolve_activity_type :: "const \<Rightarrow> json \<Rightarrow> dict \<Rightarrow> exn + json" where
  "resolve_activity_type K data service_data =
     (case subscript data ''activity_types'' of
        Inl e \<Rightarrow> Inl e
      | Inr types \<Rightarrow>
     (case py_iter types of
        Inl e \<Rightarrow> Inl e
      | Inr items \<Rightarrow>
     (case next_filter K service_data items of
        Inl e \<Rightarrow> Inl e
      | Inr a \<Rightarrow> subscript a (TYPE_ID K))))"

text \<open>
  \<open>list(filter(lambda o: o[GEAR.ACTIVITY_TYPE_PK] == activity_type_id
  and o[GEAR.UUID] != entity.uuid, old_default_state))\<close>.
\<close>

fun to_deactivate :: "const \<Rightarrow> json \<Rightarrow> json \<Rightarrow> json list \<Rightarrow> exn + json list" where
  "to_deactivate K activity_type_id uuid [] = Inr []"
| "to_deactivate K activity_type_id uuid (x # rest) =
     (case subscript x (ACTIVITY_TYPE_PK K) of
        Inl e \<Rightarrow> Inl e
      | Inr pk \<Rightarrow>
          if py_eq pk activity_type_id
          then (case subscript x (UUID K) of
                  Inl e \<Rightarrow> Inl e
                | Inr u \<Rightarrow>
                    (case to_deactivate K activity_type_id uuid rest of
                       Inl e \<Rightarrow> Inl e
                     | Inr keep \<Rightarrow> Inr (if \<not> py_eq u uuid then x # keep else keep)))
          else to_deactivate K activity_type_id uuid rest)"

fun deactivate_each :: "const \<Rightarrow> remote \<Rightarrow> json \<Rightarrow> json list \<Rightarrow> unit io" where
  "deactivate_each K api activity_type_id [] tr = (Inr (), tr)"
| "deactivate_each K api activity_type_id (active_gear # rest) tr =
     (case subscript active_gear (UUID K) of
        Inl e \<Rightarrow> (Inl e, tr)
      | Inr u \<Rightarrow>
     (case async_add_executor_job api (Set_gear_default activity_type_id u False) tr of
        (Inl e, tr') \<Rightarrow> (Inl e, tr')
      | (Inr v, tr') \<Rightarrow> deactivate_each K api activity_type_id rest tr'))"

text \<open>
  \<open>data\<close> is \<open>self.data\<close>, the snapshot of the last refresh (\<open>None\<close> before the first
  one); \<open>uuid\<close> is \<open>entity.uuid\<close>; \<open>service_data\<close> is the dict \<open>service_data.data\<close>.
\<close>

definition set_active_gear :: "const \<Rightarrow> remote \<Rightarrow> json \<Rightarrow> json \<Rightarrow> dict \<Rightarrow> unit io" where
  "set_active_gear K api data uuid service_data =
     io_bind (async_login api) (\<lambda>ok.
     if \<not> ok then io_lift (Inl (IntegrationError login_failed))
     else
     io_bind (io_lift (dict_item service_data ''setting'')) (\<lambda>setting.
     io_bind (io_lift (resolve_activity_type K data service_data)) (\<lambda>activity_type_id.
     if \<not> py_eq setting (JStr (ONLY_THIS_AS_DEFAULT K))
     then io_bind (async_add_executor_job api
            (Set_gear_default activity_type_id uuid (py_eq setting (JStr (DEFAULT K)))))
            (\<lambda>v. io_return ())
     else
     io_bind (io_lift (subscript data (USERPROFILE_ID K))) (\<lambda>profile.
     io_bind (async_add_executor_job api (Get_gear_defaults profile)) (\<lambda>old_default_state.
     io_bind (io_lift (py_iter old_default_state)) (\<lambda>entries.
     io_bind (io_lift (to_deactivate K activity_type_id uuid entries)) (\<lambda>others.
     io_bind (deactivate_each K api activity_type_id others) (\<lambda>u.
     io_bind (async_add_executor_job api (Set_gear_default activity_type_id uuid True))
       (\<lambda>v. io_return ())))))))))"

definition add_body_composition :: "remote \<Rightarrow> dict \<Rightarrow> unit io" where
  "add_body_composition api service_data =
     io_bind (async_login api) (\<lambda>ok.
     if \<not> ok then io_lift (Inl (IntegrationError login_failed))
     else
     io_bind (async_add_executor_job api (Add_body_composition
       (map (dict_get service_data)
          [''timestamp'', ''weight'', ''percent_fat'', ''percent_hydration'',
           ''visceral_fat_mass'', ''bone_mass'', ''muscle_mass'', ''basal_met'',
           ''active_met'', ''physique_rating'', ''metabolic_age'',
           ''visceral_fat_rating'', ''bmi''])))
       (\<lambda>v. io_return ()))"

definition add_blood_pressure :: "remote \<Rightarrow> dict \<Rightarrow> unit io" where
  "add_blood_pressure api service_data =
     io_bind (async_login api) (\<lambda>ok.
     if \<not> ok then io_lift (Inl (IntegrationError login_failed))
     else
     io_bind (async_add_executor_job api (Set_blood_pressure
       (dict_get service_data ''systolic'')
       (dict_get service_data ''diastolic'')
       (dict_get service_data ''pulse'')
       (dict_get service_data ''note'')))
       (\<lambda>v. io_return ()))"

section \<open>Names used in the statements\<close>

text \<open>The eight fetches of the first \<open>try\<close> block, in the order they are made.\<close>

definition primary_calls :: "dates \<Rightarrow> call list" where
  "primary_calls d =
     [Get_user_summary (today d), Get_body_composition (today d),
      Get_activities_by_date (week_ago d) (tomorrow d), Get_earned_badges,
      Get_device_alarms, Get_activity_types, Get_sleep_data (today d),
      Get_hrv_data (today d)]"

text \<open>Each call of a list, made in that order after the calls \<open>tr\<close>, returns.\<close>

fun all_succeed :: "remote \<Rightarrow> call list \<Rightarrow> call list \<Rightarrow> bool" where
  "all_succeed api tr [] = True"
| "all_succeed api tr (c # cs) =
     (case api tr c of Inl e \<Rightarrow> False | Inr v \<Rightarrow> all_succeed api (tr @ [c]) cs)"

text \<open>
  What the client answers to the \<open>get_gear_stats\<close> jobs for the uuids \<open>us\<close>, handed
  over in that order after the calls \<open>tr\<close>.
\<close>

fun job_answers :: "remote \<Rightarrow> call list \<Rightarrow> json list \<Rightarrow> (exn + json) list" where
  "job_answers api tr [] = []"
| "job_answers api tr (u # us) =
     api tr (Get_gear_stats u) # job_answers api (tr @ [Get_gear_stats u]) us"

text \<open>The eight keys the \<open>return\<close> statement writes after the two unpacked dicts.\<close>

definition derived_keys :: "string set" where
  "derived_keys = {''nextAlarm'', ''gear'', ''gear_stats'', ''activity_types'', ''gear_defaults'',
     ''sleepScore'', ''sleepTimeSeconds'', ''hrvStatus''}"

section \<open>Concrete clients and inputs\<close>

text \<open>
  A client that answers from a table, whatever was called before; a call that is not in
  the table succeeds with \<open>None\<close>.
\<close>

definition answers :: "(call \<times> (exn + json)) list \<Rightarrow> remote" where
  "answers table tr c = (case map_of table c of None \<Rightarrow> Inr JNull | Some r \<Rightarrow> r)"

definition example_const :: const where
  "example_const = \<lparr>UUID = ''uuid'', TYPE_KEY = ''typeKey'', TYPE_ID = ''typeId'',
     USERPROFILE_ID = ''userProfileId'', ACTIVITY_TYPE_PK = ''activityTypePk'',
     ONLY_THIS_AS_DEFAULT = ''set this as default, unset others'',
     DEFAULT = ''set as default''\<rparr>"

definition example_dates :: dates where
  "example_dates = \<lparr>today = ''2024-05-10'', week_ago = ''2024-05-03'',
     tomorrow = ''2024-05-11''\<rparr>"

definition healthy :: "(call \<times> (exn + json)) list" where
  "healthy =
     [(Get_user_summary ''2024-05-10'',
         Inr (JObj [(''userProfileId'', JInt 7), (''totalSteps'', JInt 1200), (''weight'', JInt 1)])),
      (Get_body_composition ''2024-05-10'',
         Inr (JObj [(''totalAverage'', JObj [(''weight'', JInt 80000), (''bmi'', JInt 24)])])),
      (Get_activities_by_date ''2024-05-03'' ''2024-05-11'', Inr (JList [])),
      (Get_earned_badges, Inr (JList [])),
      (Get_device_alarms, Inr (JList [])),
      (Get_activity_types,
         Inr (JList [JObj [(''typeKey'', JStr ''running''), (''typeId'', JInt 5)]])),
      (Get_sleep_data ''2024-05-10'',
         Inr (JObj [(''dailySleepDTO'', JObj [(''sleepTimeSeconds'', JInt 27000),
           (''sleepScores'', JObj [(''overall'', JObj [(''value'', JInt 81)])])])])),
      (Get_hrv_data ''2024-05-10'',
         Inr (JObj [(''hrvSummary'', JObj [(''status'', JStr ''BALANCED'')])])),
      (Get_gear (JInt 7),
         Inr (JList [JObj [(''uuid'', JStr ''A'')], JObj [(''uuid'', JStr ''B'')]])),
      (Get_gear_stats (JStr ''A''), Inr (JObj [(''totalDistance'', JInt 5)])),
      (Get_gear_stats (JStr ''B''), Inr (JObj [(''totalDistance'', JInt 9)])),
      (Get_gear_defaults (JInt 7),
         Inr (JList [JObj [(''uuid'', JStr ''A''), (''activityTypePk'', JInt 5)],
                     JObj [(''uuid'', JStr ''B''), (''activityTypePk'', JInt 5)]]))]"

definition healthy_primary :: primary where
  "healthy_primary =
     \<lparr>summary = JObj [(''userProfileId'', JInt 7), (''totalSteps'', JInt 1200),
        (''weight'', JInt 1), (''lastActivities'', JList []), (''badges'', JList [])],
      body = JObj [(''totalAverage'', JObj [(''weight'', JInt 80000), (''bmi'', JInt 24)])],
      alarms = JList [],
      activity_types = JList [JObj [(''typeKey'', JStr ''running''), (''typeId'', JInt 5)]],
      sleep_data = JObj [(''dailySleepDTO'', JObj [(''sleepTimeSeconds'', JInt 27000),
           (''sleepScores'', JObj [(''overall'', JObj [(''value'', JInt 81)])])])],
      hrv_data = JObj [(''hrvSummary'', JObj [(''status'', JStr ''BALANCED'')])]\<rparr>"



definition no_total_average :: "(call \<times> (exn + json)) list" where
  "no_total_average = (Get_body_composition ''2024-05-10'', Inr (JObj [])) # healthy"

definition field_of :: "(exn + json) \<times> call list \<Rightarrow> string \<Rightarrow> json option" where
  "field_of r k = (case fst r of Inr (JObj snap) \<Rightarrow> map_of snap k | _ \<Rightarrow> None)"

definition offline :: "(call \<times> (exn + json)) list" where
  "offline =
     [(Get_user_summary ''2024-05-10'', Inl GarminConnectConnectionError),
      (Login, Inl GarminConnectConnectionError)]"

definition rate_limited :: "(call \<times> (exn + json)) list" where
  "rate_limited =
     (Get_hrv_data ''2024-05-10'', Inl GarminConnectTooManyRequestsError) # healthy"

definition no_gear_defaults :: "(call \<times> (exn + json)) list" where
  "no_gear_defaults = (Get_gear_defaults (JInt 7), Inl (OtherError ''unavailable'')) # healthy"

text \<open>A last snapshot and two service calls for \<open>set_active_gear\<close>.\<close>

definition example_data :: json where
  "example_data =
     JObj [(''userProfileId'', JInt 7),
       (''activity_types'',
          JList [JObj [(''typeKey'', JStr ''running''), (''typeId'', JInt 5)]])]"

definition exclusive_request :: dict where
  "exclusive_request =
     [(''setting'', JStr ''set this as default, unset others''),
      (''activity_type'', JStr ''running'')]"

definition unknown_request :: dict where
  "unknown_request =
     [(''setting'', JStr ''set as default''), (''activity_type'', JStr ''cycling'')]"

definition failing_stats :: "(call \<times> (exn + json)) list" where
  "failing_stats = (Get_gear_stats (JStr ''B''), Inl (OtherError ''timeout'')) # healthy"


section \<open>Sequencing lemmas\<close>

lemma io_bind_job:
  "io_bind (async_add_executor_job api c) f tr =
     (case api tr c of Inl e \<Rightarrow> (Inl e, tr @ [c]) | Inr v \<Rightarrow> f v (tr @ [c]))"
  by (simp add: io_bind_def async_add_executor_job_def)

lemma io_bind_lift:
  "io_bind (io_lift r) f tr = (case r of Inl e \<Rightarrow> (Inl e, tr) | Inr v \<Rightarrow> f v tr)"
  by (simp add: io_bind_def io_lift_def)

lemma io_bind_login:
  "io_bind (async_login api) f tr =
     (case api tr Login of
        Inr v \<Rightarrow> f True (tr @ [Login])
      | Inl err \<Rightarrow>
          if err = GarminConnectConnectionError
          then (Inl (ConfigEntryNotReady err), tr @ [Login])
          else f False (tr @ [Login]))"
  by (simp add: io_bind_def async_login_def split: sum.splits)

section \<open>Dicts\<close>

lemma map_of_dict_set: "map_of (dict_set k v d) = (map_of d)(k \<mapsto> v)"
  by (induction k v d rule: dict_set.induct) auto

lemma map_of_fold_dict_set:
  "map_of (fold (\<lambda>(k, v). dict_set k v) items acc) = map_of acc ++ map_of (rev items)"
proof (induction items arbitrary: acc)
  case Nil
  show ?case by simp
next
  case (Cons kv items)
  obtain k v where kv: "kv = (k, v)" by (cases kv)
  show ?case
    by (simp add: kv Cons.IH map_of_dict_set map_add_def fun_eq_iff split: option.splits)
qed

lemma map_of_dict_display: "map_of (dict_display items) = map_of (rev items)"
  by (simp add: dict_display_def map_of_fold_dict_set)

lemma keys_dict_display: "fst ` set (dict_display items) = fst ` set items"
proof -
  have "dom (map_of (dict_display items)) = dom (map_of (rev items))"
    by (simp add: map_of_dict_display)
  then show ?thesis by (simp add: dom_map_of_conv_image_fst)
qed

lemma map_of_rev_distinct: "distinct (map fst xs) \<Longrightarrow> map_of (rev xs) = map_of xs"
proof (induction xs)
  case Nil
  show ?case by simp
next
  case (Cons x xs)
  obtain k v where x: "x = (k, v)" by (cases x)
  from Cons.prems have "k \<notin> fst ` set xs" and "distinct (map fst xs)"
    by (simp_all add: x)
  then have "map_of (rev xs) k = None" and "map_of (rev xs) = map_of xs"
    using Cons.IH by (simp_all add: map_of_eq_None_iff)
  then show ?case
    by (auto simp: x map_add_def fun_eq_iff split: option.splits)
qed

lemma keys_dict_set: "fst ` set (dict_set k v d) = insert k (fst ` set d)"
  by (induction k v d rule: dict_set.induct) auto

lemma map_of_snapshot:
  "map_of (dict_display (s @ t @ fixed)) = map_of (rev s) ++ map_of (rev t) ++ map_of (rev fixed)"
  by (simp add: map_of_dict_display)

lemma snapshot_fixed:
  "map_of (rev fixed) k = Some v \<Longrightarrow> map_of (dict_display (s @ t @ fixed)) k = Some v"
  by (simp add: map_of_snapshot)

lemma snapshot_total:
  assumes "k \<notin> fst ` set fixed" and "distinct (map fst t)" and "map_of t k = Some v"
  shows "map_of (dict_display (s @ t @ fixed)) k = Some v"
proof -
  have "map_of (rev fixed) k = None"
    using assms(1) by (simp add: map_of_eq_None_iff)
  then show ?thesis
    using assms(2,3) by (simp add: map_of_snapshot map_add_def map_of_rev_distinct)
qed

section \<open>The first \<open>try\<close> block and what follows it\<close>

lemma fetch_primary_ok:
  assumes "fetch_primary api d tr = (Inr p, tr1)"
  obtains s0 a b where
    "api tr (Get_user_summary (today d)) = Inr (JObj s0)"
    "summary p = JObj (dict_set ''badges'' b (dict_set ''lastActivities'' a s0))"
    "api (tr @ [Get_user_summary (today d)]) (Get_body_composition (today d)) = Inr (body p)"
    "tr1 = tr @ primary_calls d"
proof (cases "api tr (Get_user_summary (today d))")
  case (Inl e)
  with assms show ?thesis
    by (simp add: fetch_primary_def io_bind_job)
next
  case (Inr s)
  show ?thesis
  proof (cases s)
    case (JObj s0)
    with Inr assms that [of s0] show ?thesis
      by (auto simp: fetch_primary_def io_bind_job io_bind_lift io_return_def primary_calls_def
          split: sum.splits)
  qed (use Inr assms in \<open>auto simp: fetch_primary_def io_bind_job io_bind_lift split: sum.splits\<close>)
qed

lemma refresh_after_primary:
  assumes "fetch_primary api d tr = (Inr p, tr1)"
  shows "async_update_data K api d tr =
     (derive_and_merge p (fst (fetch_gear K api (summary p) tr1)),
      snd (fetch_gear K api (summary p) tr1))"
  using assms by (simp add: async_update_data_def split: prod.splits)

lemma derive_and_merge_ok:
  assumes "summary p = JObj s" and "body p = JObj b"
    and "map_of b ''totalAverage'' = Some (JObj t)"
    and "sleep_score_of (sleep_data p) = Inr sc"
    and "sleep_time_seconds_of (sleep_data p) = Inr st"
    and "hrvStatus_of (hrv_data p) = Inr h"
  shows "derive_and_merge p g = Inr (JObj (dict_display (s @ t @
            [(''nextAlarm'', alarms p),
             (''gear'', fst g),
             (''gear_stats'', fst (snd g)),
             (''activity_types'', activity_types p),
             (''gear_defaults'', snd (snd g)),
             (''sleepScore'', sc),
             (''sleepTimeSeconds'', st),
             (''hrvStatus'', h)])))"
  using assms by (simp add: derive_and_merge_def merged_def)

lemma healthy_fetch_primary:
  "fetch_primary (answers healthy) example_dates [] =
     (Inr healthy_primary, primary_calls example_dates)"
  by (simp add: fetch_primary_def io_bind_job io_bind_lift io_return_def answers_def healthy_def
      example_dates_def healthy_primary_def primary_calls_def)

section \<open>Login\<close>

text \<open>
  C6. What \<open>async_login\<close> does with each outcome of the remote login: it returns
  \<open>False\<close> when the login raises \<open>GarminConnectAuthenticationError\<close> or
  \<open>GarminConnectTooManyRequestsError\<close>; it raises \<open>ConfigEntryNotReady\<close> (with the
  error as its cause) when the login raises \<open>GarminConnectConnectionError\<close>; it returns
  \<open>False\<close> when the login raises anything else; it returns \<open>True\<close> when the login
  raises nothing.
\<close>

theorem async_login_outcomes:
  "(api tr Login = Inl GarminConnectAuthenticationError \<longrightarrow>
      fst (async_login api tr) = Inr False)
   \<and> (api tr Login = Inl GarminConnectTooManyRequestsError \<longrightarrow>
      fst (async_login api tr) = Inr False)
   \<and> (api tr Login = Inl GarminConnectConnectionError \<longrightarrow>
      fst (async_login api tr) = Inl (ConfigEntryNotReady GarminConnectConnectionError))
   \<and> (\<forall>e. api tr Login = Inl e \<longrightarrow> e \<noteq> GarminConnectAuthenticationError \<longrightarrow>
        e \<noteq> GarminConnectTooManyRequestsError \<longrightarrow> e \<noteq> GarminConnectConnectionError \<longrightarrow>
        fst (async_login api tr) = Inr False)
   \<and> (\<forall>v. api tr Login = Inr v \<longrightarrow> fst (async_login api tr) = Inr True)"
  by (simp add: async_login_def)

theorem async_login_outcomes_witness:
  "fst (async_login (answers [(Login, Inl GarminConnectAuthenticationError)]) []) = Inr False
   \<and> fst (async_login (answers [(Login, Inl GarminConnectTooManyRequestsError)]) []) = Inr False
   \<and> fst (async_login (answers [(Login, Inl GarminConnectConnectionError)]) []) =
       Inl (ConfigEntryNotReady GarminConnectConnectionError)
   \<and> fst (async_login (answers [(Login, Inl (OtherError ''boom''))]) []) = Inr False
   \<and> fst (async_login (answers []) []) = Inr True"
  using async_login_outcomes [of "answers [(Login, Inl GarminConnectAuthenticationError)]" "[]"]
    async_login_outcomes [of "answers [(Login, Inl GarminConnectTooManyRequestsError)]" "[]"]
    async_login_outcomes [of "answers [(Login, Inl GarminConnectConnectionError)]" "[]"]
    async_login_outcomes [of "answers [(Login, Inl (OtherError ''boom''))]" "[]"]
    async_login_outcomes [of "answers []" "[]"]
  by (simp add: answers_def)

section \<open>Write actions without a login\<close>

text \<open>
  C7. When the login that opens a write action fails (the remote login raises \<open>e\<close>),
  each of \<open>set_active_gear\<close>, \<open>add_body_composition\<close> and \<open>add_blood_pressure\<close>
  raises an \<open>IntegrationError\<close>: the one with the message of the module, or, when
  \<open>e\<close> is the connection error, its subclass \<open>ConfigEntryNotReady\<close>. The login is the
  only call the action has made then, so no write call is issued.
\<close>

theorem write_actions_need_login:
  assumes "api tr Login = Inl e"
  shows "\<exists>x. isinstance_IntegrationError x
     \<and> x = (if e = GarminConnectConnectionError then ConfigEntryNotReady e
            else IntegrationError login_failed)
     \<and> set_active_gear K api data uuid service_data tr = (Inl x, tr @ [Login])
     \<and> add_body_composition api service_data tr = (Inl x, tr @ [Login])
     \<and> add_blood_pressure api service_data tr = (Inl x, tr @ [Login])
     \<and> filter is_write [Login] = []"
  using assms
  by (simp add: set_active_gear_def add_body_composition_def add_blood_pressure_def
      io_bind_login io_lift_def)

theorem write_actions_need_login_witness:
  "answers [(Login, Inl GarminConnectAuthenticationError)] [] Login =
     Inl GarminConnectAuthenticationError
   \<and> set_active_gear example_const (answers [(Login, Inl GarminConnectAuthenticationError)])
       JNull (JStr ''g1'') [] [] = (Inl (IntegrationError login_failed), [Login])
   \<and> add_body_composition (answers [(Login, Inl GarminConnectAuthenticationError)]) [] [] =
       (Inl (IntegrationError login_failed), [Login])
   \<and> add_blood_pressure (answers [(Login, Inl GarminConnectAuthenticationError)]) [] [] =
       (Inl (IntegrationError login_failed), [Login])"
  using write_actions_need_login [of "answers [(Login, Inl GarminConnectAuthenticationError)]"
      "[]" GarminConnectAuthenticationError example_const JNull "JStr ''g1''" "[]"]
  by (simp add: answers_def)

section \<open>The merged snapshot\<close>

text \<open>
  C3. When the eight fetches succeed and nothing raises afterwards (the body-composition
  response has a dict under \<open>totalAverage\<close>, and the three extractions raise nothing),
  the refresh returns a snapshot that has every key of the summary response, every key of
  the \<open>totalAverage\<close> dict and the eight keys written last. Later writes win: a key of
  \<open>totalAverage\<close> holds the value of \<open>totalAverage\<close>, whatever the summary had under
  it, unless it is one of the eight keys written last, which hold the values of the
  \<open>return\<close> statement.
\<close>

theorem merged_snapshot_keys:
  assumes primary: "fetch_primary api d tr = (Inr p, tr1)"
    and summary_response: "api tr (Get_user_summary (today d)) = Inr (JObj s0)"
    and body_response: "body p = JObj b"
    and total: "map_of b ''totalAverage'' = Some (JObj t)"
    and dict: "distinct (map fst t)"
    and score: "sleep_score_of (sleep_data p) = Inr sc"
    and seconds: "sleep_time_seconds_of (sleep_data p) = Inr st"
    and hrv: "hrvStatus_of (hrv_data p) = Inr h"
  shows "\<exists>snap tr2. async_update_data K api d tr = (Inr (JObj snap), tr2)
     \<and> fst ` set s0 \<subseteq> fst ` set snap
     \<and> fst ` set t \<subseteq> fst ` set snap
     \<and> derived_keys \<subseteq> fst ` set snap
     \<and> (\<forall>k v. map_of t k = Some v \<longrightarrow> k \<notin> derived_keys \<longrightarrow> map_of snap k = Some v)
     \<and> map_of snap ''nextAlarm'' = Some (alarms p)
     \<and> map_of snap ''activity_types'' = Some (activity_types p)
     \<and> map_of snap ''sleepScore'' = Some sc
     \<and> map_of snap ''sleepTimeSeconds'' = Some st
     \<and> map_of snap ''hrvStatus'' = Some h"
proof -
  obtain s1 a bd where s1: "api tr (Get_user_summary (today d)) = Inr (JObj s1)"
    and s: "summary p = JObj (dict_set ''badges'' bd (dict_set ''lastActivities'' a s1))"
    using fetch_primary_ok [OF primary] by blast
  from s1 summary_response have "s1 = s0" by simp
  define s' where "s' = dict_set ''badges'' bd (dict_set ''lastActivities'' a s0)"
  define g where "g = fst (fetch_gear K api (summary p) tr1)"
  define fixed where "fixed =
            [(''nextAlarm'', alarms p),
             (''gear'', fst g),
             (''gear_stats'', fst (snd g)),
             (''activity_types'', activity_types p),
             (''gear_defaults'', snd (snd g)),
             (''sleepScore'', sc),
             (''sleepTimeSeconds'', st),
             (''hrvStatus'', h)]"
  define snap where "snap = dict_display (s' @ t @ fixed)"
  have sp: "summary p = JObj s'"
    using s \<open>s1 = s0\<close> by (simp add: s'_def)
  have run: "async_update_data K api d tr =
      (Inr (JObj snap), snd (fetch_gear K api (summary p) tr1))"
    unfolding snap_def fixed_def g_def
    by (simp only: refresh_after_primary [OF primary]
        derive_and_merge_ok [OF sp body_response total score seconds hrv])
  have keys: "fst ` set snap = fst ` set s' \<union> fst ` set t \<union> fst ` set fixed"
    unfolding snap_def by (simp add: keys_dict_display image_Un Un_assoc)
  have fk: "fst ` set fixed = derived_keys"
    unfolding fixed_def derived_keys_def by (simp add: insert_commute)
  have k1: "fst ` set s0 \<subseteq> fst ` set snap"
    unfolding keys s'_def by (auto simp: keys_dict_set)
  have k2: "fst ` set t \<subseteq> fst ` set snap"
    unfolding keys by blast
  have k3: "derived_keys \<subseteq> fst ` set snap"
    unfolding keys fk by blast
  have win: "\<forall>k v. map_of t k = Some v \<longrightarrow> k \<notin> derived_keys \<longrightarrow> map_of snap k = Some v"
    unfolding snap_def using snapshot_total [OF _ dict] fk by blast
  have f1: "map_of snap ''nextAlarm'' = Some (alarms p)"
    unfolding snap_def by (rule snapshot_fixed) (simp add: fixed_def)
  have f2: "map_of snap ''activity_types'' = Some (activity_types p)"
    unfolding snap_def by (rule snapshot_fixed) (simp add: fixed_def)
  have f3: "map_of snap ''sleepScore'' = Some sc"
    unfolding snap_def by (rule snapshot_fixed) (simp add: fixed_def)
  have f4: "map_of snap ''sleepTimeSeconds'' = Some st"
    unfolding snap_def by (rule snapshot_fixed) (simp add: fixed_def)
  have f5: "map_of snap ''hrvStatus'' = Some h"
    unfolding snap_def by (rule snapshot_fixed) (simp add: fixed_def)
  from run k1 k2 k3 win f1 f2 f3 f4 f5 show ?thesis by blast
qed

theorem merged_snapshot_keys_witness:
  "\<exists>snap tr2. async_update_data example_const (answers healthy) example_dates [] =
       (Inr (JObj snap), tr2)
     \<and> {''userProfileId'', ''totalSteps'', ''weight''} \<subseteq> fst ` set snap
     \<and> {''weight'', ''bmi''} \<subseteq> fst ` set snap
     \<and> derived_keys \<subseteq> fst ` set snap
     \<and> map_of snap ''weight'' = Some (JInt 80000)
     \<and> map_of snap ''nextAlarm'' = Some (JList [])"
proof -
  have s: "answers healthy [] (Get_user_summary (today example_dates)) =
      Inr (JObj [(''userProfileId'', JInt 7), (''totalSteps'', JInt 1200), (''weight'', JInt 1)])"
    by (simp add: answers_def healthy_def example_dates_def)
  have b: "body healthy_primary =
      JObj [(''totalAverage'', JObj [(''weight'', JInt 80000), (''bmi'', JInt 24)])]"
    by (simp add: healthy_primary_def)
  have t: "map_of [(''totalAverage'', JObj [(''weight'', JInt 80000), (''bmi'', JInt 24)])]
      ''totalAverage'' = Some (JObj [(''weight'', JInt 80000), (''bmi'', JInt 24)])"
    by simp
  have dt: "distinct (map fst [(''weight'', JInt 80000), (''bmi'', JInt 24)])"
    by simp
  have sc: "sleep_score_of (sleep_data healthy_primary) = Inr (JInt 81)"
    by (simp add: healthy_primary_def sleep_score_of_def except_KeyError_def)
  have st: "sleep_time_seconds_of (sleep_data healthy_primary) = Inr (JInt 27000)"
    by (simp add: healthy_primary_def sleep_time_seconds_of_def except_KeyError_def)
  have h: "hrvStatus_of (hrv_data healthy_primary) = Inr (JObj [(''status'', JStr ''BALANCED'')])"
    by (simp add: healthy_primary_def hrvStatus_of_def except_KeyError_def)
  have w: "''weight'' \<notin> derived_keys"
    by (simp add: derived_keys_def)
  have a: "alarms healthy_primary = JList []"
    by (simp add: healthy_primary_def)
  from merged_snapshot_keys [OF healthy_fetch_primary s b t dt sc st h, of example_const]
  obtain snap tr2 where
    "async_update_data example_const (answers healthy) example_dates [] = (Inr (JObj snap), tr2)"
    "fst ` set [(''userProfileId'', JInt 7), (''totalSteps'', JInt 1200), (''weight'', JInt 1)]
       \<subseteq> fst ` set snap"
    "fst ` set [(''weight'', JInt 80000), (''bmi'', JInt 24)] \<subseteq> fst ` set snap"
    "derived_keys \<subseteq> fst ` set snap"
    "\<forall>k v. map_of [(''weight'', JInt 80000), (''bmi'', JInt 24)] k = Some v \<longrightarrow>
       k \<notin> derived_keys \<longrightarrow> map_of snap k = Some v"
    "map_of snap ''nextAlarm'' = Some (alarms healthy_primary)"
    by blast
  moreover from this(5) w have "map_of snap ''weight'' = Some (JInt 80000)"
    by simp
  ultimately show ?thesis
    unfolding a by (intro exI conjI) simp_all
qed

lemma refresh_fields:
  assumes primary: "fetch_primary api d tr = (Inr p, tr1)"
    and body_response: "body p = JObj b"
    and total: "map_of b ''totalAverage'' = Some (JObj t)"
    and score: "sleep_score_of (sleep_data p) = Inr sc"
    and seconds: "sleep_time_seconds_of (sleep_data p) = Inr st"
    and hrv: "hrvStatus_of (hrv_data p) = Inr h"
  obtains snap where
    "async_update_data K api d tr =
       (Inr (JObj snap), snd (fetch_gear K api (summary p) tr1))"
    "map_of snap ''gear'' = Some (fst (fst (fetch_gear K api (summary p) tr1)))"
    "map_of snap ''gear_stats'' = Some (fst (snd (fst (fetch_gear K api (summary p) tr1))))"
    "map_of snap ''gear_defaults'' = Some (snd (snd (fst (fetch_gear K api (summary p) tr1))))"
    "map_of snap ''sleepScore'' = Some sc"
    "map_of snap ''sleepTimeSeconds'' = Some st"
    "map_of snap ''hrvStatus'' = Some h"
proof -
  obtain s' where sp: "summary p = JObj s'"
    using fetch_primary_ok [OF primary] by blast
  define g where "g = fst (fetch_gear K api (summary p) tr1)"
  define fixed where "fixed =
            [(''nextAlarm'', alarms p),
             (''gear'', fst g),
             (''gear_stats'', fst (snd g)),
             (''activity_types'', activity_types p),
             (''gear_defaults'', snd (snd g)),
             (''sleepScore'', sc),
             (''sleepTimeSeconds'', st),
             (''hrvStatus'', h)]"
  define snap where "snap = dict_display (s' @ t @ fixed)"
  have run: "async_update_data K api d tr =
      (Inr (JObj snap), snd (fetch_gear K api (summary p) tr1))"
    unfolding snap_def fixed_def g_def
    by (simp only: refresh_after_primary [OF primary]
        derive_and_merge_ok [OF sp body_response total score seconds hrv])
  have f1: "map_of snap ''gear'' = Some (fst g)"
    unfolding snap_def by (rule snapshot_fixed) (simp add: fixed_def)
  have f2: "map_of snap ''gear_stats'' = Some (fst (snd g))"
    unfolding snap_def by (rule snapshot_fixed) (simp add: fixed_def)
  have f3: "map_of snap ''gear_defaults'' = Some (snd (snd g))"
    unfolding snap_def by (rule snapshot_fixed) (simp add: fixed_def)
  have f4: "map_of snap ''sleepScore'' = Some sc"
    unfolding snap_def by (rule snapshot_fixed) (simp add: fixed_def)
  have f5: "map_of snap ''sleepTimeSeconds'' = Some st"
    unfolding snap_def by (rule snapshot_fixed) (simp add: fixed_def)
  have f6: "map_of snap ''hrvStatus'' = Some h"
    unfolding snap_def by (rule snapshot_fixed) (simp add: fixed_def)
  show thesis
    using that [OF run] f1 f2 f3 f4 f5 f6 unfolding g_def by blast
qed



section \<open>Sleep data without the expected keys\<close>




section \<open>The HRV status\<close>







section \<open>A body-composition response without \<open>totalAverage\<close>\<close>

lemma no_total_average_fetch_primary:
  "fetch_primary (answers no_total_average) example_dates [] =
     (Inr (healthy_primary\<lparr>body := JObj []\<rparr>), primary_calls example_dates)"
  by code_simp

text \<open>
  C10. The \<open>return\<close> statement reads \<open>body["totalAverage"]\<close> unguarded. When the
  eight fetches succeed and the body-composition response is a dict without that key,
  the refresh returns no snapshot: it raises, and what it raises is
  \<open>KeyError('totalAverage')\<close> whenever the three extractions before the \<open>return\<close>
  raise nothing. No \<open>except\<close> clause of the function handles it.
\<close>

theorem missing_totalAverage_raises:
  assumes primary: "fetch_primary api d tr = (Inr p, tr1)"
    and body_response: "body p = JObj b"
    and lacks: "map_of b ''totalAverage'' = None"
  shows "\<exists>e tr2. async_update_data K api d tr = (Inl e, tr2)
     \<and> ((\<exists>sc st h. sleep_score_of (sleep_data p) = Inr sc
            \<and> sleep_time_seconds_of (sleep_data p) = Inr st
            \<and> hrvStatus_of (hrv_data p) = Inr h)
          \<longrightarrow> e = KeyError ''totalAverage'')"
proof -
  obtain s' where sp: "summary p = JObj s'"
    using fetch_primary_ok [OF primary] by blast
  have m: "merged p g sc st h = Inl (KeyError ''totalAverage'')" for g sc st h
    by (simp add: merged_def sp body_response lacks)
  have "\<exists>e. derive_and_merge p g = Inl e
     \<and> ((\<exists>sc st h. sleep_score_of (sleep_data p) = Inr sc
            \<and> sleep_time_seconds_of (sleep_data p) = Inr st
            \<and> hrvStatus_of (hrv_data p) = Inr h)
          \<longrightarrow> e = KeyError ''totalAverage'')" for g
    by (auto simp: derive_and_merge_def m split: sum.splits)
  then show ?thesis
    unfolding refresh_after_primary [OF primary] by blast
qed

theorem missing_totalAverage_raises_witness:
  "fst (async_update_data example_const (answers no_total_average) example_dates []) =
     Inl (KeyError ''totalAverage'')"
proof -
  let ?p = "healthy_primary\<lparr>body := JObj []\<rparr>"
  have b: "body ?p = JObj []" by simp
  have l: "map_of ([] :: dict) ''totalAverage'' = None" by simp
  have sc: "sleep_score_of (sleep_data ?p) = Inr (JInt 81)"
    by (simp add: healthy_primary_def sleep_score_of_def except_KeyError_def)
  have st: "sleep_time_seconds_of (sleep_data ?p) = Inr (JInt 27000)"
    by (simp add: healthy_primary_def sleep_time_seconds_of_def except_KeyError_def)
  have h: "hrvStatus_of (hrv_data ?p) = Inr (JObj [(''status'', JStr ''BALANCED'')])"
    by (simp add: healthy_primary_def hrvStatus_of_def except_KeyError_def)
  show ?thesis
    using missing_totalAverage_raises [OF no_total_average_fetch_primary b l, of example_const]
      sc st h
    by auto
qed

section \<open>A failing fetch in the first \<open>try\<close> block\<close>

lemma fetch_raises_in_primary:
  assumes calls: "primary_calls d = cs @ c # rest"
    and before: "all_succeed api tr cs"
    and raises: "api (tr @ cs) c = Inl error"
    and mapping: "2 < length cs \<longrightarrow> (\<exists>s0. api tr (Get_user_summary (today d)) = Inr (JObj s0))"
  shows "fetch_primary api d tr = (Inl error, tr @ cs @ [c])"
  using assms
  by (auto simp: primary_calls_def Cons_eq_append_conv fetch_primary_def io_bind_job io_bind_lift
      split: sum.splits)


lemma primary_calls_no_login: "Login \<notin> set (primary_calls d)"
  by (simp add: primary_calls_def)

text \<open>
  C1, as the code has it. Let \<open>c\<close> be one of the eight fetches, let the fetches
  \<open>cs\<close> before it return, and let \<open>c\<close> raise one of the three Garmin errors. (The
  fourth and later fetches come after \<open>summary['lastActivities'] = activities\<close>, which
  needs the summary response to be a dict.) Then no login was made before \<open>c\<close>, and
  the refresh makes exactly one more call, the login, and no further fetch. When the login
  succeeds the refresh returns the empty dict. When the login raises anything but the
  connection error (\<open>async_login\<close> returns \<open>False\<close>), the refresh raises
  \<open>UpdateFailed\<close> with the error of the fetch. When the login raises the connection
  error, \<open>async_login\<close> raises \<open>ConfigEntryNotReady\<close> and the refresh lets it pass.
\<close>

theorem relogin_after_primary_error:
  assumes calls: "primary_calls d = cs @ c # rest"
    and before: "all_succeed api tr cs"
    and raises: "api (tr @ cs) c = Inl error"
    and kind: "error = GarminConnectAuthenticationError
      \<or> error = GarminConnectTooManyRequestsError
      \<or> error = GarminConnectConnectionError"
    and mapping: "2 < length cs \<longrightarrow> (\<exists>s0. api tr (Get_user_summary (today d)) = Inr (JObj s0))"
  shows "Login \<notin> set (cs @ [c])
     \<and> snd (async_update_data K api d tr) = tr @ cs @ [c, Login]
     \<and> (\<forall>v. api (tr @ cs @ [c]) Login = Inr v \<longrightarrow>
          fst (async_update_data K api d tr) = Inr (JObj []))
     \<and> (\<forall>e. api (tr @ cs @ [c]) Login = Inl e \<longrightarrow> e \<noteq> GarminConnectConnectionError \<longrightarrow>
          fst (async_update_data K api d tr) = Inl (UpdateFailed error))
     \<and> (api (tr @ cs @ [c]) Login = Inl GarminConnectConnectionError \<longrightarrow>
          fst (async_update_data K api d tr) =
            Inl (ConfigEntryNotReady GarminConnectConnectionError))"
proof -
  have failed: "fetch_primary api d tr = (Inl error, tr @ cs @ [c])"
    by (rule fetch_raises_in_primary [OF calls before raises mapping])
  have "set (cs @ [c]) \<subseteq> set (primary_calls d)"
    unfolding calls by auto
  then have no_login: "Login \<notin> set (cs @ [c])"
    using primary_calls_no_login by blast
  have run: "async_update_data K api d tr =
      (case async_login api (tr @ cs @ [c]) of
         (Inl e, tr2) \<Rightarrow> (Inl e, tr2)
       | (Inr ok, tr2) \<Rightarrow>
           if \<not> ok then (Inl (UpdateFailed error), tr2) else (Inr (JObj []), tr2))"
    using failed kind by (auto simp: async_update_data_def)
  have "snd (async_update_data K api d tr) = tr @ cs @ [c, Login]"
    unfolding run by (simp add: async_login_def split: sum.splits)
  moreover have "\<forall>v. api (tr @ cs @ [c]) Login = Inr v \<longrightarrow>
      fst (async_update_data K api d tr) = Inr (JObj [])"
    unfolding run by (simp add: async_login_def)
  moreover have "\<forall>e. api (tr @ cs @ [c]) Login = Inl e \<longrightarrow> e \<noteq> GarminConnectConnectionError \<longrightarrow>
          fst (async_update_data K api d tr) = Inl (UpdateFailed error)"
    unfolding run by (simp add: async_login_def)
  moreover have "api (tr @ cs @ [c]) Login = Inl GarminConnectConnectionError \<longrightarrow>
          fst (async_update_data K api d tr) =
            Inl (ConfigEntryNotReady GarminConnectConnectionError)"
    unfolding run by (simp add: async_login_def)
  ultimately show ?thesis using no_login by blast
qed

theorem relogin_after_primary_error_witness:
  "async_update_data example_const (answers rate_limited) example_dates [] =
     (Inr (JObj []), primary_calls example_dates @ [Login])"
proof -
  have c: "primary_calls example_dates =
      [Get_user_summary ''2024-05-10'', Get_body_composition ''2024-05-10'',
       Get_activities_by_date ''2024-05-03'' ''2024-05-11'', Get_earned_badges,
       Get_device_alarms, Get_activity_types, Get_sleep_data ''2024-05-10'']
      @ Get_hrv_data ''2024-05-10'' # []"
    by (simp add: primary_calls_def example_dates_def)
  have b: "all_succeed (answers rate_limited) []
      [Get_user_summary ''2024-05-10'', Get_body_composition ''2024-05-10'',
       Get_activities_by_date ''2024-05-03'' ''2024-05-11'', Get_earned_badges,
       Get_device_alarms, Get_activity_types, Get_sleep_data ''2024-05-10'']"
    by (simp add: answers_def rate_limited_def healthy_def)
  have r: "answers rate_limited ([] @
      [Get_user_summary ''2024-05-10'', Get_body_composition ''2024-05-10'',
       Get_activities_by_date ''2024-05-03'' ''2024-05-11'', Get_earned_badges,
       Get_device_alarms, Get_activity_types, Get_sleep_data ''2024-05-10''])
      (Get_hrv_data ''2024-05-10'') = Inl GarminConnectTooManyRequestsError"
    by (simp add: answers_def rate_limited_def)
  have k: "GarminConnectTooManyRequestsError = GarminConnectAuthenticationError
      \<or> GarminConnectTooManyRequestsError = GarminConnectTooManyRequestsError
      \<or> GarminConnectTooManyRequestsError = GarminConnectConnectionError"
    by simp
  have m: "2 < length
      [Get_user_summary ''2024-05-10'', Get_body_composition ''2024-05-10'',
       Get_activities_by_date ''2024-05-03'' ''2024-05-11'', Get_earned_badges,
       Get_device_alarms, Get_activity_types, Get_sleep_data ''2024-05-10''] \<longrightarrow>
      (\<exists>s0. answers rate_limited [] (Get_user_summary (today example_dates)) = Inr (JObj s0))"
    by (simp add: answers_def rate_limited_def healthy_def example_dates_def)
  have l: "answers rate_limited (primary_calls example_dates) Login = Inr JNull"
    by (simp add: answers_def rate_limited_def healthy_def)
  show ?thesis
    using relogin_after_primary_error [OF c b r k m, of example_const] l
    by (simp add: prod_eq_iff primary_calls_def example_dates_def)
qed

text \<open>
  C1 as stated promises \<open>UpdateFailed\<close> with the original error whenever the
  re-authentication fails. With the service unreachable the summary fetch raises the
  connection error, so does the login, and the refresh raises \<open>ConfigEntryNotReady\<close>.
\<close>

theorem relogin_connection_error_counterexample:
  "answers offline [] (Get_user_summary ''2024-05-10'') = Inl GarminConnectConnectionError
   \<and> answers offline [Get_user_summary ''2024-05-10''] Login = Inl GarminConnectConnectionError
   \<and> async_update_data example_const (answers offline) example_dates [] =
       (Inl (ConfigEntryNotReady GarminConnectConnectionError),
        [Get_user_summary ''2024-05-10'', Login])
   \<and> ConfigEntryNotReady GarminConnectConnectionError \<noteq> UpdateFailed GarminConnectConnectionError"
  by code_simp

section \<open>The gear phase\<close>

lemma gear_stats_tasks_calls:
  "gear_stats_tasks K api items tr = (r, tr') \<Longrightarrow> \<exists>cs. tr' = tr @ cs \<and> Login \<notin> set cs"
proof (induction items arbitrary: tr r tr')
  case Nil
  then show ?case by simp
next
  case (Cons gear_item rest)
  show ?case
  proof (cases "subscript gear_item (UUID K)")
    case (Inl e)
    with Cons.prems show ?thesis by simp
  next
    case (Inr u)
    obtain r' tr'' where rec: "gear_stats_tasks K api rest (tr @ [Get_gear_stats u]) = (r', tr'')"
      by (cases "gear_stats_tasks K api rest (tr @ [Get_gear_stats u])")
    from Cons.IH [OF rec] obtain cs where cs: "tr'' = (tr @ [Get_gear_stats u]) @ cs"
      "Login \<notin> set cs" by blast
    from Cons.prems Inr rec have "tr' = tr''"
      by (auto split: sum.splits)
    with cs have "tr' = tr @ (Get_gear_stats u # cs)" "Login \<notin> set (Get_gear_stats u # cs)"
      by simp_all
    then show ?thesis by blast
  qed
qed

lemma gear_stats_of_calls:
  assumes "gear_stats_of K api gear tr = (r, tr')"
  shows "\<exists>cs. tr' = tr @ cs \<and> Login \<notin> set cs"
proof (cases "py_iter gear")
  case (Inl e)
  with assms show ?thesis
    by (simp add: gear_stats_of_def io_bind_lift)
next
  case (Inr items)
  obtain r' tr'' where t: "gear_stats_tasks K api items tr = (r', tr'')"
    by (cases "gear_stats_tasks K api items tr")
  from assms Inr t have "tr' = tr''"
    by (auto simp: gear_stats_of_def io_bind_lift io_bind_def io_lift_def split: sum.splits)
  with gear_stats_tasks_calls [OF t] show ?thesis by simp
qed

lemma fetch_gear_calls: "\<exists>cs. snd (fetch_gear K api s tr) = tr @ cs \<and> Login \<notin> set cs"
proof (cases "subscript s (USERPROFILE_ID K)")
  case (Inl e)
  then show ?thesis by (simp add: fetch_gear_def)
next
  case profile: (Inr profile)
  show ?thesis
  proof (cases "api tr (Get_gear profile)")
    case (Inl e)
    with profile show ?thesis
      by (simp add: fetch_gear_def async_add_executor_job_def)
  next
    case gear: (Inr gear)
    obtain r tr2 where st: "gear_stats_of K api gear (tr @ [Get_gear profile]) = (r, tr2)"
      by (cases "gear_stats_of K api gear (tr @ [Get_gear profile])")
    from gear_stats_of_calls [OF st] obtain cs where
      cs: "tr2 = (tr @ [Get_gear profile]) @ cs" "Login \<notin> set cs" by blast
    have "snd (fetch_gear K api s tr) = tr2
      \<or> snd (fetch_gear K api s tr) = tr2 @ [Get_gear_defaults profile]"
      using profile gear st
      by (auto simp: fetch_gear_def async_add_executor_job_def split: sum.splits)
    then show ?thesis
    proof
      assume "snd (fetch_gear K api s tr) = tr2"
      with cs have "snd (fetch_gear K api s tr) = tr @ (Get_gear profile # cs)"
        "Login \<notin> set (Get_gear profile # cs)" by simp_all
      then show ?thesis by blast
    next
      assume "snd (fetch_gear K api s tr) = tr2 @ [Get_gear_defaults profile]"
      with cs have
        "snd (fetch_gear K api s tr) = tr @ (Get_gear profile # cs @ [Get_gear_defaults profile])"
        "Login \<notin> set (Get_gear profile # cs @ [Get_gear_defaults profile])" by simp_all
      then show ?thesis by blast
    qed
  qed
qed

lemma fetch_gear_no_profile:
  "subscript s (USERPROFILE_ID K) = Inl e \<Longrightarrow>
     fst (fetch_gear K api s tr) = (JObj [], JObj [], JObj [])"
  by (simp add: fetch_gear_def)

lemma fetch_gear_no_gear:
  "subscript s (USERPROFILE_ID K) = Inr profile \<Longrightarrow> api tr (Get_gear profile) = Inl e \<Longrightarrow>
     fst (fetch_gear K api s tr) = (JObj [], JObj [], JObj [])"
  by (simp add: fetch_gear_def async_add_executor_job_def)

lemma fetch_gear_no_stats:
  "subscript s (USERPROFILE_ID K) = Inr profile \<Longrightarrow> api tr (Get_gear profile) = Inr gear \<Longrightarrow>
   gear_stats_of K api gear (tr @ [Get_gear profile]) = (Inl e, tr2) \<Longrightarrow>
     fst (fetch_gear K api s tr) = (gear, JObj [], JObj [])"
  by (simp add: fetch_gear_def async_add_executor_job_def)

lemma fetch_gear_no_defaults:
  "subscript s (USERPROFILE_ID K) = Inr profile \<Longrightarrow> api tr (Get_gear profile) = Inr gear \<Longrightarrow>
   gear_stats_of K api gear (tr @ [Get_gear profile]) = (Inr stats, tr2) \<Longrightarrow>
   api tr2 (Get_gear_defaults profile) = Inl e \<Longrightarrow>
     fst (fetch_gear K api s tr) = (gear, JList stats, JObj [])"
  by (simp add: fetch_gear_def async_add_executor_job_def)

lemma gather_raises_Cons: "gather ts = Inl e \<Longrightarrow> \<exists>e'. gather (t # ts) = Inl e'"
  by (cases t) simp_all

lemma gather_map_Inr: "gather (map Inr vs) = Inr vs"
  by (induction vs) simp_all

lemma gear_stats_tasks_ok:
  assumes "list_all2 (\<lambda>x u. subscript x (UUID K) = Inr u) items us"
  shows "gear_stats_tasks K api items tr =
     (Inr (job_answers api tr us), tr @ map Get_gear_stats us)"
  using assms
proof (induction items us arbitrary: tr rule: list_all2_induct)
  case Nil
  show ?case by simp
next
  case (Cons x items u us)
  show ?case
    by (simp add: Cons.hyps Cons.IH)
qed

lemma gear_stats_tasks_item_fails:
  assumes "list_all2 (\<lambda>x u. subscript x (UUID K) = Inr u) before us"
    and "subscript g (UUID K) = Inl e
      \<or> (\<exists>u. subscript g (UUID K) = Inr u
            \<and> api (tr @ map Get_gear_stats us) (Get_gear_stats u) = Inl e)"
  shows "\<exists>tr'. (\<exists>e'. gear_stats_tasks K api (before @ g # after) tr = (Inl e', tr'))
     \<or> (\<exists>tasks e'. gear_stats_tasks K api (before @ g # after) tr = (Inr tasks, tr')
           \<and> gather tasks = Inl e')"
  using assms
proof (induction before us arbitrary: tr rule: list_all2_induct)
  case Nil
  from Nil show ?case
  proof
    assume "subscript g (UUID K) = Inl e"
    then show ?thesis by simp
  next
    assume "\<exists>u. subscript g (UUID K) = Inr u
      \<and> api (tr @ map Get_gear_stats []) (Get_gear_stats u) = Inl e"
    then obtain u where u: "subscript g (UUID K) = Inr u"
      and r: "api tr (Get_gear_stats u) = Inl e" by auto
    obtain r' tr' where rec: "gear_stats_tasks K api after (tr @ [Get_gear_stats u]) = (r', tr')"
      by (cases "gear_stats_tasks K api after (tr @ [Get_gear_stats u])")
    show ?thesis
      by (cases r') (simp_all add: u r rec)
  qed
next
  case (Cons x before u us)
  have "subscript g (UUID K) = Inl e
      \<or> (\<exists>w. subscript g (UUID K) = Inr w
            \<and> api ((tr @ [Get_gear_stats u]) @ map Get_gear_stats us) (Get_gear_stats w) = Inl e)"
    using Cons.prems by simp
  from Cons.IH [OF this] obtain tr' where
    rec: "(\<exists>e'. gear_stats_tasks K api (before @ g # after) (tr @ [Get_gear_stats u]) = (Inl e', tr'))
     \<or> (\<exists>tasks e'. gear_stats_tasks K api (before @ g # after) (tr @ [Get_gear_stats u])
            = (Inr tasks, tr') \<and> gather tasks = Inl e')"
    by blast
  then show ?case
  proof
    assume "\<exists>e'. gear_stats_tasks K api (before @ g # after) (tr @ [Get_gear_stats u]) = (Inl e', tr')"
    then show ?thesis by (auto simp: Cons.hyps)
  next
    assume "\<exists>tasks e'. gear_stats_tasks K api (before @ g # after) (tr @ [Get_gear_stats u])
            = (Inr tasks, tr') \<and> gather tasks = Inl e'"
    then obtain tasks e' where t: "gear_stats_tasks K api (before @ g # after)
        (tr @ [Get_gear_stats u]) = (Inr tasks, tr')" and g: "gather tasks = Inl e'" by blast
    from gather_raises_Cons [OF g] obtain e'' where
      "gather (api tr (Get_gear_stats u) # tasks) = Inl e''" by blast
    with t show ?thesis by (auto simp: Cons.hyps)
  qed
qed

lemma gear_stats_of_not_iterable:
  "py_iter gear = Inl e \<Longrightarrow> gear_stats_of K api gear tr = (Inl e, tr)"
  by (simp add: gear_stats_of_def io_bind_lift)

lemma gear_stats_of_item_fails:
  assumes "py_iter gear = Inr (before @ g # after)"
    and "list_all2 (\<lambda>x u. subscript x (UUID K) = Inr u) before us"
    and "subscript g (UUID K) = Inl e
      \<or> (\<exists>u. subscript g (UUID K) = Inr u
            \<and> api (tr @ map Get_gear_stats us) (Get_gear_stats u) = Inl e)"
  shows "\<exists>e' tr2. gear_stats_of K api gear tr = (Inl e', tr2)"
proof -
  have "\<exists>tr'. (\<exists>e'. gear_stats_tasks K api (before @ g # after) tr = (Inl e', tr'))
     \<or> (\<exists>tasks e'. gear_stats_tasks K api (before @ g # after) tr = (Inr tasks, tr')
           \<and> gather tasks = Inl e')"
    using assms(2,3) by (rule gear_stats_tasks_item_fails)
  then show ?thesis
    by (auto simp: gear_stats_of_def io_bind_lift assms(1) io_bind_def io_lift_def)
qed

lemma gear_stats_of_ok:
  assumes "py_iter gear = Inr items"
    and "list_all2 (\<lambda>x u. subscript x (UUID K) = Inr u) items us"
    and "job_answers api tr us = map Inr stats"
  shows "gear_stats_of K api gear tr = (Inr stats, tr @ map Get_gear_stats us)"
  by (simp add: gear_stats_of_def io_bind_lift assms(1) io_bind_def io_lift_def
      gear_stats_tasks_ok [OF assms(2)] assms(3) gather_map_Inr)

text \<open>
  C2, as the code has it. When the eight fetches succeed and the extractions and the
  merge raise nothing, the refresh returns a merged snapshot whatever happens in the gear
  phase, and the calls it makes after the eight fetches contain no login. A local of the
  gear phase that was assigned before the exception keeps its value:
  \<^item> all three fields are empty when the profile id lookup raises, or when the
    \<open>get_gear\<close> call raises;
  \<^item> \<open>gear\<close> holds the fetched value and the other two are empty when the fetched
    value cannot be iterated, when an item has no uuid, or when the \<open>get_gear_stats\<close>
    job of an item raises (the items before it having a uuid);
  \<^item> \<open>gear\<close> and \<open>gear_stats\<close> hold what was fetched and \<open>gear_defaults\<close> is
    empty when every \<open>get_gear_stats\<close> job returns and the \<open>get_gear_defaults\<close> call
    raises.
\<close>

theorem gear_failure_degrades:
  assumes primary: "fetch_primary api d tr = (Inr p, tr1)"
    and body_response: "body p = JObj b"
    and total: "map_of b ''totalAverage'' = Some (JObj t)"
    and score: "sleep_score_of (sleep_data p) = Inr sc"
    and seconds: "sleep_time_seconds_of (sleep_data p) = Inr st"
    and hrv: "hrvStatus_of (hrv_data p) = Inr h"
  shows "\<exists>snap cs. async_update_data K api d tr = (Inr (JObj snap), tr1 @ cs)
     \<and> Login \<notin> set cs
     \<and> (\<forall>e. subscript (summary p) (USERPROFILE_ID K) = Inl e \<longrightarrow>
          map_of snap ''gear'' = Some (JObj [])
          \<and> map_of snap ''gear_stats'' = Some (JObj [])
          \<and> map_of snap ''gear_defaults'' = Some (JObj []))
     \<and> (\<forall>profile. subscript (summary p) (USERPROFILE_ID K) = Inr profile \<longrightarrow>
          (\<forall>e. api tr1 (Get_gear profile) = Inl e \<longrightarrow>
             map_of snap ''gear'' = Some (JObj [])
             \<and> map_of snap ''gear_stats'' = Some (JObj [])
             \<and> map_of snap ''gear_defaults'' = Some (JObj []))
          \<and> (\<forall>gear. api tr1 (Get_gear profile) = Inr gear \<longrightarrow>
               (\<forall>e. py_iter gear = Inl e \<longrightarrow>
                  map_of snap ''gear'' = Some gear
                  \<and> map_of snap ''gear_stats'' = Some (JObj [])
                  \<and> map_of snap ''gear_defaults'' = Some (JObj []))
               \<and> (\<forall>before g after us e.
                    py_iter gear = Inr (before @ g # after) \<longrightarrow>
                    list_all2 (\<lambda>x u. subscript x (UUID K) = Inr u) before us \<longrightarrow>
                    (subscript g (UUID K) = Inl e
                     \<or> (\<exists>u. subscript g (UUID K) = Inr u
                           \<and> api (tr1 @ Get_gear profile # map Get_gear_stats us)
                               (Get_gear_stats u) = Inl e)) \<longrightarrow>
                      map_of snap ''gear'' = Some gear
                      \<and> map_of snap ''gear_stats'' = Some (JObj [])
                      \<and> map_of snap ''gear_defaults'' = Some (JObj []))
               \<and> (\<forall>items us stats e.
                    py_iter gear = Inr items \<longrightarrow>
                    list_all2 (\<lambda>x u. subscript x (UUID K) = Inr u) items us \<longrightarrow>
                    job_answers api (tr1 @ [Get_gear profile]) us = map Inr stats \<longrightarrow>
                    api (tr1 @ Get_gear profile # map Get_gear_stats us)
                      (Get_gear_defaults profile) = Inl e \<longrightarrow>
                      map_of snap ''gear'' = Some gear
                      \<and> map_of snap ''gear_stats'' = Some (JList stats)
                      \<and> map_of snap ''gear_defaults'' = Some (JObj []))))"
proof -
  let ?g = "fst (fetch_gear K api (summary p) tr1)"
  from refresh_fields [OF primary body_response total score seconds hrv, of K]
  obtain snap where run: "async_update_data K api d tr =
       (Inr (JObj snap), snd (fetch_gear K api (summary p) tr1))"
    and g1: "map_of snap ''gear'' = Some (fst ?g)"
    and g2: "map_of snap ''gear_stats'' = Some (fst (snd ?g))"
    and g3: "map_of snap ''gear_defaults'' = Some (snd (snd ?g))"
    by blast
  obtain cs where cs: "snd (fetch_gear K api (summary p) tr1) = tr1 @ cs" "Login \<notin> set cs"
    using fetch_gear_calls by blast
  have a: "map_of snap ''gear'' = Some (JObj [])
          \<and> map_of snap ''gear_stats'' = Some (JObj [])
          \<and> map_of snap ''gear_defaults'' = Some (JObj [])"
    if "subscript (summary p) (USERPROFILE_ID K) = Inl e" for e
    using g1 g2 g3 that
      fetch_gear_no_profile [where s = "summary p" and K = K and e = e and api = api and tr = tr1]
    by simp
  have b: "map_of snap ''gear'' = Some (JObj [])
             \<and> map_of snap ''gear_stats'' = Some (JObj [])
             \<and> map_of snap ''gear_defaults'' = Some (JObj [])"
    if "subscript (summary p) (USERPROFILE_ID K) = Inr profile"
      and "api tr1 (Get_gear profile) = Inl e" for profile e
    using g1 g2 g3 that
      fetch_gear_no_gear [where s = "summary p" and K = K and profile = profile and api = api
        and tr = tr1 and e = e]
    by simp
  have stats_fail: "map_of snap ''gear'' = Some gear
                  \<and> map_of snap ''gear_stats'' = Some (JObj [])
                  \<and> map_of snap ''gear_defaults'' = Some (JObj [])"
    if "subscript (summary p) (USERPROFILE_ID K) = Inr profile"
      and "api tr1 (Get_gear profile) = Inr gear"
      and "gear_stats_of K api gear (tr1 @ [Get_gear profile]) = (Inl e, tr2)"
    for profile gear e tr2
    using g1 g2 g3 that
      fetch_gear_no_stats [where s = "summary p" and K = K and profile = profile and api = api
        and tr = tr1 and gear = gear and e = e and ?tr2.0 = tr2]
    by simp
  have c: "map_of snap ''gear'' = Some gear
                  \<and> map_of snap ''gear_stats'' = Some (JObj [])
                  \<and> map_of snap ''gear_defaults'' = Some (JObj [])"
    if "subscript (summary p) (USERPROFILE_ID K) = Inr profile"
      and "api tr1 (Get_gear profile) = Inr gear"
      and "py_iter gear = Inl e" for profile gear e
    using stats_fail [OF that(1,2) gear_stats_of_not_iterable [OF that(3)]] .
  have d: "map_of snap ''gear'' = Some gear
                  \<and> map_of snap ''gear_stats'' = Some (JObj [])
                  \<and> map_of snap ''gear_defaults'' = Some (JObj [])"
    if "subscript (summary p) (USERPROFILE_ID K) = Inr profile"
      and "api tr1 (Get_gear profile) = Inr gear"
      and "py_iter gear = Inr (before @ g # after)"
      and "list_all2 (\<lambda>x u. subscript x (UUID K) = Inr u) before us"
      and "subscript g (UUID K) = Inl e
                     \<or> (\<exists>u. subscript g (UUID K) = Inr u
                           \<and> api (tr1 @ Get_gear profile # map Get_gear_stats us)
                               (Get_gear_stats u) = Inl e)"
    for profile gear before g after us e
  proof -
    have "subscript g (UUID K) = Inl e
        \<or> (\<exists>u. subscript g (UUID K) = Inr u
              \<and> api ((tr1 @ [Get_gear profile]) @ map Get_gear_stats us)
                  (Get_gear_stats u) = Inl e)"
      using that(5) by simp
    with that(3,4) have "\<exists>e' tr2. gear_stats_of K api gear (tr1 @ [Get_gear profile]) = (Inl e', tr2)"
      by (rule gear_stats_of_item_fails)
    then show ?thesis
      using stats_fail [OF that(1,2)] by blast
  qed
  have f: "map_of snap ''gear'' = Some gear
                      \<and> map_of snap ''gear_stats'' = Some (JList stats)
                      \<and> map_of snap ''gear_defaults'' = Some (JObj [])"
    if "subscript (summary p) (USERPROFILE_ID K) = Inr profile"
      and "api tr1 (Get_gear profile) = Inr gear"
      and "py_iter gear = Inr items"
      and "list_all2 (\<lambda>x u. subscript x (UUID K) = Inr u) items us"
      and "job_answers api (tr1 @ [Get_gear profile]) us = map Inr stats"
      and "api (tr1 @ Get_gear profile # map Get_gear_stats us)
                      (Get_gear_defaults profile) = Inl e"
    for profile gear items us stats e
  proof -
    have ok: "gear_stats_of K api gear (tr1 @ [Get_gear profile]) =
        (Inr stats, (tr1 @ [Get_gear profile]) @ map Get_gear_stats us)"
      using that(3,4,5) by (rule gear_stats_of_ok)
    have "api ((tr1 @ [Get_gear profile]) @ map Get_gear_stats us)
        (Get_gear_defaults profile) = Inl e"
      using that(6) by simp
    with that(1,2) ok show ?thesis
      using g1 g2 g3
        fetch_gear_no_defaults [where s = "summary p" and K = K and profile = profile
          and api = api and tr = tr1 and gear = gear and stats = stats and e = e
          and ?tr2.0 = "(tr1 @ [Get_gear profile]) @ map Get_gear_stats us"]
      by simp
  qed
  have result: "async_update_data K api d tr = (Inr (JObj snap), tr1 @ cs)"
    using run cs(1) by simp
  have A: "\<forall>e. subscript (summary p) (USERPROFILE_ID K) = Inl e \<longrightarrow>
          map_of snap ''gear'' = Some (JObj [])
          \<and> map_of snap ''gear_stats'' = Some (JObj [])
          \<and> map_of snap ''gear_defaults'' = Some (JObj [])"
    using a by blast
  have B: "\<forall>e. api tr1 (Get_gear profile) = Inl e \<longrightarrow>
             map_of snap ''gear'' = Some (JObj [])
             \<and> map_of snap ''gear_stats'' = Some (JObj [])
             \<and> map_of snap ''gear_defaults'' = Some (JObj [])"
    if "subscript (summary p) (USERPROFILE_ID K) = Inr profile" for profile
    using b [OF that] by blast
  have C: "\<forall>e. py_iter gear = Inl e \<longrightarrow>
                  map_of snap ''gear'' = Some gear
                  \<and> map_of snap ''gear_stats'' = Some (JObj [])
                  \<and> map_of snap ''gear_defaults'' = Some (JObj [])"
    if "subscript (summary p) (USERPROFILE_ID K) = Inr profile"
      and "api tr1 (Get_gear profile) = Inr gear" for profile gear
    using c [OF that] by blast
  have D: "\<forall>before g after us e.
                    py_iter gear = Inr (before @ g # after) \<longrightarrow>
                    list_all2 (\<lambda>x u. subscript x (UUID K) = Inr u) before us \<longrightarrow>
                    (subscript g (UUID K) = Inl e
                     \<or> (\<exists>u. subscript g (UUID K) = Inr u
                           \<and> api (tr1 @ Get_gear profile # map Get_gear_stats us)
                               (Get_gear_stats u) = Inl e)) \<longrightarrow>
                      map_of snap ''gear'' = Some gear
                      \<and> map_of snap ''gear_stats'' = Some (JObj [])
                      \<and> map_of snap ''gear_defaults'' = Some (JObj [])"
    if "subscript (summary p) (USERPROFILE_ID K) = Inr profile"
      and "api tr1 (Get_gear profile) = Inr gear" for profile gear
    using d [OF that] by blast
  have F: "\<forall>items us stats e.
                    py_iter gear = Inr items \<longrightarrow>
                    list_all2 (\<lambda>x u. subscript x (UUID K) = Inr u) items us \<longrightarrow>
                    job_answers api (tr1 @ [Get_gear profile]) us = map Inr stats \<longrightarrow>
                    api (tr1 @ Get_gear profile # map Get_gear_stats us)
                      (Get_gear_defaults profile) = Inl e \<longrightarrow>
                      map_of snap ''gear'' = Some gear
                      \<and> map_of snap ''gear_stats'' = Some (JList stats)
                      \<and> map_of snap ''gear_defaults'' = Some (JObj [])"
    if "subscript (summary p) (USERPROFILE_ID K) = Inr profile"
      and "api tr1 (Get_gear profile) = Inr gear" for profile gear
    using f [OF that] by blast
  show ?thesis
  proof (intro exI [of _ snap] exI [of _ cs] conjI)
    show "async_update_data K api d tr = (Inr (JObj snap), tr1 @ cs)"
      by (rule result)
    show "Login \<notin> set cs"
      by (rule cs(2))
    show "\<forall>e. subscript (summary p) (USERPROFILE_ID K) = Inl e \<longrightarrow>
          map_of snap ''gear'' = Some (JObj [])
          \<and> map_of snap ''gear_stats'' = Some (JObj [])
          \<and> map_of snap ''gear_defaults'' = Some (JObj [])"
      by (rule A)
  next
    show "\<forall>profile. subscript (summary p) (USERPROFILE_ID K) = Inr profile \<longrightarrow>
          (\<forall>e. api tr1 (Get_gear profile) = Inl e \<longrightarrow>
             map_of snap ''gear'' = Some (JObj [])
             \<and> map_of snap ''gear_stats'' = Some (JObj [])
             \<and> map_of snap ''gear_defaults'' = Some (JObj []))
          \<and> (\<forall>gear. api tr1 (Get_gear profile) = Inr gear \<longrightarrow>
               (\<forall>e. py_iter gear = Inl e \<longrightarrow>
                  map_of snap ''gear'' = Some gear
                  \<and> map_of snap ''gear_stats'' = Some (JObj [])
                  \<and> map_of snap ''gear_defaults'' = Some (JObj []))
               \<and> (\<forall>before g after us e.
                    py_iter gear = Inr (before @ g # after) \<longrightarrow>
                    list_all2 (\<lambda>x u. subscript x (UUID K) = Inr u) before us \<longrightarrow>
                    (subscript g (UUID K) = Inl e
                     \<or> (\<exists>u. subscript g (UUID K) = Inr u
                           \<and> api (tr1 @ Get_gear profile # map Get_gear_stats us)
                               (Get_gear_stats u) = Inl e)) \<longrightarrow>
                      map_of snap ''gear'' = Some gear
                      \<and> map_of snap ''gear_stats'' = Some (JObj [])
                      \<and> map_of snap ''gear_defaults'' = Some (JObj []))
               \<and> (\<forall>items us stats e.
                    py_iter gear = Inr items \<longrightarrow>
                    list_all2 (\<lambda>x u. subscript x (UUID K) = Inr u) items us \<longrightarrow>
                    job_answers api (tr1 @ [Get_gear profile]) us = map Inr stats \<longrightarrow>
                    api (tr1 @ Get_gear profile # map Get_gear_stats us)
                      (Get_gear_defaults profile) = Inl e \<longrightarrow>
                      map_of snap ''gear'' = Some gear
                      \<and> map_of snap ''gear_stats'' = Some (JList stats)
                      \<and> map_of snap ''gear_defaults'' = Some (JObj [])))"
    proof (intro allI impI)
      fix profile
      assume pr: "subscript (summary p) (USERPROFILE_ID K) = Inr profile"
      show "(\<forall>e. api tr1 (Get_gear profile) = Inl e \<longrightarrow>
             map_of snap ''gear'' = Some (JObj [])
             \<and> map_of snap ''gear_stats'' = Some (JObj [])
             \<and> map_of snap ''gear_defaults'' = Some (JObj []))
          \<and> (\<forall>gear. api tr1 (Get_gear profile) = Inr gear \<longrightarrow>
               (\<forall>e. py_iter gear = Inl e \<longrightarrow>
                  map_of snap ''gear'' = Some gear
                  \<and> map_of snap ''gear_stats'' = Some (JObj [])
                  \<and> map_of snap ''gear_defaults'' = Some (JObj []))
               \<and> (\<forall>before g after us e.
                    py_iter gear = Inr (before @ g # after) \<longrightarrow>
                    list_all2 (\<lambda>x u. subscript x (UUID K) = Inr u) before us \<longrightarrow>
                    (subscript g (UUID K) = Inl e
                     \<or> (\<exists>u. subscript g (UUID K) = Inr u
                           \<and> api (tr1 @ Get_gear profile # map Get_gear_stats us)
                               (Get_gear_stats u) = Inl e)) \<longrightarrow>
                      map_of snap ''gear'' = Some gear
                      \<and> map_of snap ''gear_stats'' = Some (JObj [])
                      \<and> map_of snap ''gear_defaults'' = Some (JObj []))
               \<and> (\<forall>items us stats e.
                    py_iter gear = Inr items \<longrightarrow>
                    list_all2 (\<lambda>x u. subscript x (UUID K) = Inr u) items us \<longrightarrow>
                    job_answers api (tr1 @ [Get_gear profile]) us = map Inr stats \<longrightarrow>
                    api (tr1 @ Get_gear profile # map Get_gear_stats us)
                      (Get_gear_defaults profile) = Inl e \<longrightarrow>
                      map_of snap ''gear'' = Some gear
                      \<and> map_of snap ''gear_stats'' = Some (JList stats)
                      \<and> map_of snap ''gear_defaults'' = Some (JObj [])))"
        using B [OF pr] C [OF pr] D [OF pr] F [OF pr] by blast
    qed
  qed
qed

lemma no_gear_defaults_fetch_primary:
  "fetch_primary (answers no_gear_defaults) example_dates [] =
     (Inr healthy_primary, primary_calls example_dates)"
  by code_simp

lemma failing_stats_fetch_primary:
  "fetch_primary (answers failing_stats) example_dates [] =
     (Inr healthy_primary, primary_calls example_dates)"
  by code_simp

theorem gear_failure_degrades_witness:
  "(\<exists>snap cs. async_update_data example_const (answers no_gear_defaults) example_dates [] =
       (Inr (JObj snap), primary_calls example_dates @ cs)
     \<and> Login \<notin> set cs
     \<and> map_of snap ''gear'' =
         Some (JList [JObj [(''uuid'', JStr ''A'')], JObj [(''uuid'', JStr ''B'')]])
     \<and> map_of snap ''gear_stats'' =
         Some (JList [JObj [(''totalDistance'', JInt 5)], JObj [(''totalDistance'', JInt 9)]])
     \<and> map_of snap ''gear_defaults'' = Some (JObj []))
   \<and> (\<exists>snap cs. async_update_data example_const (answers failing_stats) example_dates [] =
       (Inr (JObj snap), primary_calls example_dates @ cs)
     \<and> Login \<notin> set cs
     \<and> map_of snap ''gear'' =
         Some (JList [JObj [(''uuid'', JStr ''A'')], JObj [(''uuid'', JStr ''B'')]])
     \<and> map_of snap ''gear_stats'' = Some (JObj [])
     \<and> map_of snap ''gear_defaults'' = Some (JObj []))"
proof -
  let ?A = "JObj [(''uuid'', JStr ''A'')]"
  let ?B = "JObj [(''uuid'', JStr ''B'')]"
  let ?gear = "JList [?A, ?B]"
  have b: "body healthy_primary =
      JObj [(''totalAverage'', JObj [(''weight'', JInt 80000), (''bmi'', JInt 24)])]"
    by (simp add: healthy_primary_def)
  have t: "map_of [(''totalAverage'', JObj [(''weight'', JInt 80000), (''bmi'', JInt 24)])]
      ''totalAverage'' = Some (JObj [(''weight'', JInt 80000), (''bmi'', JInt 24)])"
    by simp
  have sc: "sleep_score_of (sleep_data healthy_primary) = Inr (JInt 81)"
    by (simp add: healthy_primary_def sleep_score_of_def except_KeyError_def)
  have st: "sleep_time_seconds_of (sleep_data healthy_primary) = Inr (JInt 27000)"
    by (simp add: healthy_primary_def sleep_time_seconds_of_def except_KeyError_def)
  have h: "hrvStatus_of (hrv_data healthy_primary) = Inr (JObj [(''status'', JStr ''BALANCED'')])"
    by (simp add: healthy_primary_def hrvStatus_of_def except_KeyError_def)
  have profile: "subscript (summary healthy_primary) (USERPROFILE_ID example_const) = Inr (JInt 7)"
    by (simp add: healthy_primary_def example_const_def)
  have gear1: "answers no_gear_defaults (primary_calls example_dates) (Get_gear (JInt 7)) =
      Inr ?gear"
    by (simp add: answers_def no_gear_defaults_def healthy_def)
  have items1: "py_iter ?gear = Inr [?A, ?B]"
    by simp
  have uuids: "list_all2 (\<lambda>x u. subscript x (UUID example_const) = Inr u) [?A, ?B]
      [JStr ''A'', JStr ''B'']"
    by (simp add: example_const_def)
  have jobs: "job_answers (answers no_gear_defaults)
      (primary_calls example_dates @ [Get_gear (JInt 7)]) [JStr ''A'', JStr ''B''] =
      map Inr [JObj [(''totalDistance'', JInt 5)], JObj [(''totalDistance'', JInt 9)]]"
    by (simp add: answers_def no_gear_defaults_def healthy_def)
  have defaults: "answers no_gear_defaults
      (primary_calls example_dates @ Get_gear (JInt 7) # map Get_gear_stats [JStr ''A'', JStr ''B''])
      (Get_gear_defaults (JInt 7)) = Inl (OtherError ''unavailable'')"
    by (simp add: answers_def no_gear_defaults_def)
  have first: "\<exists>snap cs. async_update_data example_const (answers no_gear_defaults) example_dates [] =
       (Inr (JObj snap), primary_calls example_dates @ cs)
     \<and> Login \<notin> set cs
     \<and> map_of snap ''gear'' = Some ?gear
     \<and> map_of snap ''gear_stats'' =
         Some (JList [JObj [(''totalDistance'', JInt 5)], JObj [(''totalDistance'', JInt 9)]])
     \<and> map_of snap ''gear_defaults'' = Some (JObj [])"
    using gear_failure_degrades [OF no_gear_defaults_fetch_primary b t sc st h, of example_const]
    apply (elim exE conjE)
    subgoal premises prems for snap cs
      using prems(1,2)
        prems(4) [rule_format, OF profile, THEN conjunct2, rule_format, OF gear1,
          THEN conjunct2, THEN conjunct2, rule_format, OF items1 uuids jobs defaults]
      by blast
    done
  have gear2: "answers failing_stats (primary_calls example_dates) (Get_gear (JInt 7)) =
      Inr ?gear"
    by (simp add: answers_def failing_stats_def healthy_def)
  have items2: "py_iter ?gear = Inr ([?A] @ ?B # [])"
    by simp
  have before: "list_all2 (\<lambda>x u. subscript x (UUID example_const) = Inr u) [?A] [JStr ''A'']"
    by (simp add: example_const_def)
  have job: "subscript ?B (UUID example_const) = Inl (OtherError ''timeout'')
      \<or> (\<exists>u. subscript ?B (UUID example_const) = Inr u
            \<and> answers failing_stats
                (primary_calls example_dates @ Get_gear (JInt 7) # map Get_gear_stats [JStr ''A''])
                (Get_gear_stats u) = Inl (OtherError ''timeout''))"
    by (simp add: example_const_def answers_def failing_stats_def)
  have second: "\<exists>snap cs. async_update_data example_const (answers failing_stats) example_dates [] =
       (Inr (JObj snap), primary_calls example_dates @ cs)
     \<and> Login \<notin> set cs
     \<and> map_of snap ''gear'' = Some ?gear
     \<and> map_of snap ''gear_stats'' = Some (JObj [])
     \<and> map_of snap ''gear_defaults'' = Some (JObj [])"
    using gear_failure_degrades [OF failing_stats_fetch_primary b t sc st h, of example_const]
    apply (elim exE conjE)
    subgoal premises prems for snap cs
      using prems(1,2)
        prems(4) [rule_format, OF profile, THEN conjunct2, rule_format, OF gear2,
          THEN conjunct2, THEN conjunct1, rule_format, OF items2 before job]
      by blast
    done
  from first second show ?thesis by blast
qed

text \<open>
  C2 as stated has all three fields empty whenever a fetch of the phase fails. Here the
  defaults fetch raises after the gear list and the statistics were fetched: \<open>gear\<close> and
  \<open>gear_stats\<close> are not empty.
\<close>

theorem gear_kept_after_failure_counterexample:
  "answers no_gear_defaults
      (primary_calls example_dates
         @ [Get_gear (JInt 7), Get_gear_stats (JStr ''A''), Get_gear_stats (JStr ''B'')])
      (Get_gear_defaults (JInt 7)) = Inl (OtherError ''unavailable'')
   \<and> field_of (async_update_data example_const (answers no_gear_defaults) example_dates [])
       ''gear'' = Some (JList [JObj [(''uuid'', JStr ''A'')], JObj [(''uuid'', JStr ''B'')]])
   \<and> field_of (async_update_data example_const (answers no_gear_defaults) example_dates [])
       ''gear_stats'' =
         Some (JList [JObj [(''totalDistance'', JInt 5)], JObj [(''totalDistance'', JInt 9)]])
   \<and> field_of (async_update_data example_const (answers no_gear_defaults) example_dates [])
       ''gear_defaults'' = Some (JObj [])"
  by code_simp

section \<open>\<open>set_active_gear\<close>\<close>

lemma next_filter_miss:
  assumes "map_of service_data ''activity_type'' = Some label"
    and "\<forall>a\<in>set items. \<forall>key. subscript a (TYPE_KEY K) = Inr key \<longrightarrow> \<not> py_eq key label"
  shows "\<exists>e. next_filter K service_data items = Inl e"
  using assms(2)
proof (induction items)
  case Nil
  show ?case by simp
next
  case (Cons a rest)
  then obtain e where "next_filter K service_data rest = Inl e" by auto
  with Cons.prems assms(1) show ?case
    by (cases "subscript a (TYPE_KEY K)") (simp_all add: dict_item_def)
qed

text \<open>
  C5. When the last snapshot has a list under \<open>activity_types\<close> and no entry of it has
  the requested label under \<open>GEAR.TYPE_KEY\<close>, \<open>set_active_gear\<close> raises, and the login
  is the only call it has made: no \<open>set_gear_default\<close> call is issued.
\<close>

theorem unknown_activity_type_raises:
  assumes types: "subscript data ''activity_types'' = Inr (JList types)"
    and label: "map_of service_data ''activity_type'' = Some label"
    and miss: "\<forall>a\<in>set types. \<forall>key. subscript a (TYPE_KEY K) = Inr key \<longrightarrow> \<not> py_eq key label"
  shows "\<exists>e. set_active_gear K api data uuid service_data tr = (Inl e, tr @ [Login])"
proof -
  obtain e where "next_filter K service_data types = Inl e"
    using next_filter_miss [OF label miss] by blast
  then have r: "resolve_activity_type K data service_data = Inl e"
    by (simp add: resolve_activity_type_def types)
  show ?thesis
    by (cases "api tr Login"; cases "dict_item service_data ''setting''")
      (simp_all add: set_active_gear_def io_bind_login io_bind_lift io_lift_def r)
qed

theorem unknown_activity_type_raises_witness:
  "\<exists>e. set_active_gear example_const (answers healthy) example_data (JStr ''C'')
      unknown_request [] = (Inl e, [Login])"
proof -
  have t: "subscript example_data ''activity_types'' =
      Inr (JList [JObj [(''typeKey'', JStr ''running''), (''typeId'', JInt 5)]])"
    by (simp add: example_data_def)
  have l: "map_of unknown_request ''activity_type'' = Some (JStr ''cycling'')"
    by (simp add: unknown_request_def)
  have m: "\<forall>a\<in>set [JObj [(''typeKey'', JStr ''running''), (''typeId'', JInt 5)]].
      \<forall>key. subscript a (TYPE_KEY example_const) = Inr key \<longrightarrow> \<not> py_eq key (JStr ''cycling'')"
    by (simp add: example_const_def)
  show ?thesis
    using unknown_activity_type_raises [OF t l m, of "answers healthy" "JStr ''C''" "[]"]
    by simp
qed

lemma to_deactivate_dicts:
  assumes "\<forall>e\<in>set ds. map_of e (ACTIVITY_TYPE_PK K) \<noteq> None \<and> map_of e (UUID K) \<noteq> None"
  shows "to_deactivate K activity_type_id uuid (map JObj ds) =
     Inr (map JObj (filter (\<lambda>e. py_eq (dict_get e (ACTIVITY_TYPE_PK K)) activity_type_id
        \<and> \<not> py_eq (dict_get e (UUID K)) uuid) ds))"
  using assms
proof (induction ds)
  case Nil
  show ?case by simp
next
  case (Cons e ds)
  from Cons.prems obtain pk u where pk: "map_of e (ACTIVITY_TYPE_PK K) = Some pk"
    and u: "map_of e (UUID K) = Some u" by auto
  from Cons have IH: "to_deactivate K activity_type_id uuid (map JObj ds) =
     Inr (map JObj (filter (\<lambda>e. py_eq (dict_get e (ACTIVITY_TYPE_PK K)) activity_type_id
        \<and> \<not> py_eq (dict_get e (UUID K)) uuid) ds))" by simp
  show ?case
    by (simp add: pk u IH dict_get_def)
qed


lemma write_succeeds:
  assumes "\<forall>tr' c. is_write c \<longrightarrow> (\<exists>v. api tr' c = Inr v)"
  shows "\<exists>v. api tr (Set_gear_default t u b) = Inr v"
proof -
  have "is_write (Set_gear_default t u b)" by simp
  with assms show ?thesis by blast
qed

lemma deactivate_each_calls:
  assumes "\<forall>e\<in>set ds. map_of e (UUID K) \<noteq> None"
    and "\<forall>tr' c. is_write c \<longrightarrow> (\<exists>v. api tr' c = Inr v)"
  shows "deactivate_each K api activity_type_id (map JObj ds) tr =
     (Inr (), tr @ map (\<lambda>e. Set_gear_default activity_type_id (dict_get e (UUID K)) False) ds)"
  using assms(1)
proof (induction ds arbitrary: tr)
  case Nil
  show ?case by simp
next
  case (Cons e ds)
  from Cons.prems obtain u where u: "map_of e (UUID K) = Some u" by auto
  obtain v where v: "api tr (Set_gear_default activity_type_id u False) = Inr v"
    using write_succeeds [OF assms(2)] by blast
  from Cons have IH: "deactivate_each K api activity_type_id (map JObj ds)
      (tr @ [Set_gear_default activity_type_id u False]) =
     (Inr (), (tr @ [Set_gear_default activity_type_id u False])
        @ map (\<lambda>e. Set_gear_default activity_type_id (dict_get e (UUID K)) False) ds)"
    by simp
  show ?case
    by (simp add: u v IH async_add_executor_job_def dict_get_def)
qed


lemma io_bind_deactivate_each:
  "deactivate_each K api t others tr = (Inr (), tr') \<Longrightarrow>
     io_bind (deactivate_each K api t others) f tr = f () tr'"
  by (simp add: io_bind_def)

text \<open>
  C4. With the setting \<open>SERVICE_SETTING.ONLY_THIS_AS_DEFAULT\<close>, a login that succeeds, a
  resolved activity type, gear defaults that are dicts with the two keys read, and write
  calls that raise nothing, \<open>set_active_gear\<close> makes these calls and no other, in this
  order: the login, the fetch of the gear defaults, one \<open>set_gear_default(id, u, False)\<close>
  for each fetched entry whose \<open>GEAR.ACTIVITY_TYPE_PK\<close> equals the resolved id and
  whose uuid \<open>u\<close> differs from the target's, in the order fetched, and last
  \<open>set_gear_default(id, target, True)\<close>.
\<close>

theorem exclusive_default_calls:
  assumes login: "api tr Login = Inr v0"
    and setting: "map_of service_data ''setting'' = Some setting"
    and exclusive: "py_eq setting (JStr (ONLY_THIS_AS_DEFAULT K))"
    and resolved: "resolve_activity_type K data service_data = Inr activity_type_id"
    and profile: "subscript data (USERPROFILE_ID K) = Inr profile"
    and fetched: "api (tr @ [Login]) (Get_gear_defaults profile) = Inr (JList (map JObj entries))"
    and keys: "\<forall>e\<in>set entries.
      map_of e (ACTIVITY_TYPE_PK K) \<noteq> None \<and> map_of e (UUID K) \<noteq> None"
    and writes: "\<forall>tr' c. is_write c \<longrightarrow> (\<exists>v. api tr' c = Inr v)"
  shows "set_active_gear K api data uuid service_data tr =
     (Inr (),
      tr @ [Login, Get_gear_defaults profile]
        @ map (\<lambda>e. Set_gear_default activity_type_id (dict_get e (UUID K)) False)
            (filter (\<lambda>e. py_eq (dict_get e (ACTIVITY_TYPE_PK K)) activity_type_id
               \<and> \<not> py_eq (dict_get e (UUID K)) uuid) entries)
        @ [Set_gear_default activity_type_id uuid True])"
proof -
  define others where "others = filter (\<lambda>e. py_eq (dict_get e (ACTIVITY_TYPE_PK K)) activity_type_id
               \<and> \<not> py_eq (dict_get e (UUID K)) uuid) entries"
  define tr2 where "tr2 = tr @ [Login, Get_gear_defaults profile]"
  define tr3 where "tr3 = tr2 @ map (\<lambda>e. Set_gear_default activity_type_id (dict_get e (UUID K)) False) others"
  have sel: "to_deactivate K activity_type_id uuid (map JObj entries) = Inr (map JObj others)"
    unfolding others_def by (rule to_deactivate_dicts [OF keys])
  have "\<forall>e\<in>set others. map_of e (UUID K) \<noteq> None"
    using keys by (simp add: others_def)
  then have loop: "deactivate_each K api activity_type_id (map JObj others) tr2 = (Inr (), tr3)"
    unfolding tr3_def by (rule deactivate_each_calls [OF _ writes])
  obtain v where last: "api tr3 (Set_gear_default activity_type_id uuid True) = Inr v"
    using write_succeeds [OF writes] by blast
  have item: "dict_item service_data ''setting'' = Inr setting"
    by (simp add: dict_item_def setting)
  have step1: "set_active_gear K api data uuid service_data tr =
     io_bind (async_add_executor_job api (Get_gear_defaults profile)) (\<lambda>old_default_state.
     io_bind (io_lift (py_iter old_default_state)) (\<lambda>entries.
     io_bind (io_lift (to_deactivate K activity_type_id uuid entries)) (\<lambda>others.
     io_bind (deactivate_each K api activity_type_id others) (\<lambda>u.
     io_bind (async_add_executor_job api (Set_gear_default activity_type_id uuid True))
       (\<lambda>v. io_return ()))))) (tr @ [Login])"
    by (simp add: set_active_gear_def io_bind_login io_bind_lift login item resolved exclusive
        profile)
  have step2: "\<dots> =
     io_bind (deactivate_each K api activity_type_id (map JObj others)) (\<lambda>u.
     io_bind (async_add_executor_job api (Set_gear_default activity_type_id uuid True))
       (\<lambda>v. io_return ())) tr2"
    by (simp add: io_bind_job io_bind_lift fetched sel tr2_def)
  have step3: "\<dots> = (Inr (), tr3 @ [Set_gear_default activity_type_id uuid True])"
    by (simp add: io_bind_deactivate_each [OF loop] io_bind_job last io_return_def)
  show ?thesis
    unfolding step1 step2 step3 by (simp add: tr3_def tr2_def others_def)
qed

lemma healthy_writes: "\<forall>tr' c. is_write c \<longrightarrow> (\<exists>v. answers healthy tr' c = Inr v)"
proof (intro allI impI)
  fix tr' c
  assume "is_write c"
  then show "\<exists>v. answers healthy tr' c = Inr v"
    by (cases c) (simp_all add: answers_def healthy_def)
qed

theorem exclusive_default_calls_witness:
  "set_active_gear example_const (answers healthy) example_data (JStr ''C'')
     exclusive_request [] =
   (Inr (),
    [Login, Get_gear_defaults (JInt 7),
     Set_gear_default (JInt 5) (JStr ''A'') False,
     Set_gear_default (JInt 5) (JStr ''B'') False,
     Set_gear_default (JInt 5) (JStr ''C'') True])"
proof -
  have login: "answers healthy [] Login = Inr JNull"
    by (simp add: answers_def healthy_def)
  have setting: "map_of exclusive_request ''setting'' =
      Some (JStr ''set this as default, unset others'')"
    by (simp add: exclusive_request_def)
  have exclusive: "py_eq (JStr ''set this as default, unset others'')
      (JStr (ONLY_THIS_AS_DEFAULT example_const))"
    by (simp add: example_const_def)
  have resolved: "resolve_activity_type example_const example_data exclusive_request =
      Inr (JInt 5)"
    by (simp add: resolve_activity_type_def example_data_def exclusive_request_def
        example_const_def dict_item_def)
  have profile: "subscript example_data (USERPROFILE_ID example_const) = Inr (JInt 7)"
    by (simp add: example_data_def example_const_def)
  have fetched: "answers healthy ([] @ [Login]) (Get_gear_defaults (JInt 7)) =
      Inr (JList (map JObj
        [[(''uuid'', JStr ''A''), (''activityTypePk'', JInt 5)],
         [(''uuid'', JStr ''B''), (''activityTypePk'', JInt 5)]]))"
    by (simp add: answers_def healthy_def)
  have keys: "\<forall>e\<in>set [[(''uuid'', JStr ''A''), (''activityTypePk'', JInt 5)],
         [(''uuid'', JStr ''B''), (''activityTypePk'', JInt 5)]].
      map_of e (ACTIVITY_TYPE_PK example_const) \<noteq> None \<and> map_of e (UUID example_const) \<noteq> None"
    by (simp add: example_const_def)
  show ?thesis
    using exclusive_default_calls [OF login setting exclusive resolved profile fetched keys
        healthy_writes, of "JStr ''C''"]
    by (simp add: dict_get_def example_const_def)
qed

end
